theory Spec2Isabelle
  imports Main
begin

section \<open>Python values and exceptions\<close>

text \<open>
  The module is \<open>src/sage/structure/category_object.pyx\<close>. Strings are Python 2 byte
  strings (the module uses \<open>basestring\<close>), so a \<open>string\<close> of 8-bit characters models
  them and characters are classified as in the C locale.

  A Python value that can be handed over as a name or as a specification of names: \<open>None\<close>,
  a \<open>str\<close>, a list, a tuple, or any other object (\<open>PyObj\<close>, opaque). Equality of values
  is Python's \<open>==\<close>: a list never equals a tuple, a \<open>str\<close> never equals a sequence.
\<close>

datatype 'x pyval =
    PyNone
  | PyStr string
  | PyList "'x pyval list"
  | PyTuple "'x pyval list"
  | PyObj 'x

text \<open>
  The messages of the exceptions the module raises; a message built with \<open>format\<close>
  carries the value that is formatted into it.
\<close>

datatype 'x message =
    NameNotString "'x pyval"  \<comment> \<open>variable name {!r} must be a string, not {}\<close>
  | NameEmpty                 \<comment> \<open>variable name must be nonempty\<close>
  | NameNotAlnum string       \<comment> \<open>variable name {!r} is not alphanumeric\<close>
  | NameNoLetter string       \<comment> \<open>variable name {!r} does not start with a letter\<close>
  | NameDuplicate string      \<comment> \<open>variable name {!r} appears more than once\<close>
  | CountMismatch             \<comment> \<open>the number of names must equal the number of generators\<close>
  | NamesChanged              \<comment> \<open>variable names cannot be changed after object creation.\<close>
  | NamesNotTuple             \<comment> \<open>names must be a tuple of strings\<close>
  | NamesNotSet               \<comment> \<open>variable names have not yet been set using self._assign_names(...)\<close>
  | NoAttribute string        \<comment> \<open>no attribute, with the name looked up\<close>
  | MissingKey string         \<comment> \<open>the key a dict lookup did not find\<close>

datatype 'x error =
    ValueError "'x message"
  | TypeError "'x message"
  | IndexError "'x message"
  | AttributeError "'x message"
  | KeyError "'x message"

section \<open>String primitives\<close>

definition isalpha :: "char \<Rightarrow> bool" where
  "isalpha c = (let n = (of_char c :: nat) in (65 \<le> n \<and> n \<le> 90) \<or> (97 \<le> n \<and> n \<le> 122))"

definition isdigit :: "char \<Rightarrow> bool" where
  "isdigit c = (let n = (of_char c :: nat) in 48 \<le> n \<and> n \<le> 57)"

definition isspace :: "char \<Rightarrow> bool" where
  "isspace c = (c \<in> {CHR '' '', CHR 0x09, CHR 0x0A, CHR 0x0B, CHR 0x0C, CHR 0x0D})"

text \<open>\<open>str.isalnum()\<close>: false on the empty string, else every character a letter or digit.\<close>

definition str_isalnum :: "string \<Rightarrow> bool" where
  "str_isalnum s = (s \<noteq> [] \<and> list_all (\<lambda>c. isalpha c \<or> isdigit c) s)"

text \<open>\<open>N.replace("_", "")\<close>.\<close>

definition replace_underscore :: "string \<Rightarrow> string" where
  "replace_underscore s = filter (\<lambda>c. c \<noteq> CHR ''_'') s"

text \<open>\<open>str.strip()\<close>: whitespace removed at both ends.\<close>

definition strip :: "string \<Rightarrow> string" where
  "strip s = rev (dropWhile isspace (rev (dropWhile isspace s)))"

text \<open>\<open>names.split(',')\<close>: the segments between commas, empty ones kept.\<close>

fun split_comma :: "string \<Rightarrow> string list" where
  "split_comma [] = [[]]"
| "split_comma (c # cs) =
     (if c = CHR '','' then [] # split_comma cs
      else (case split_comma cs of [] \<Rightarrow> [[c]] | w # ws \<Rightarrow> (c # w) # ws))"

text \<open>Iterating over a \<open>str\<close> yields its characters as one-character strings.\<close>

definition iter_str :: "string \<Rightarrow> 'x pyval list" where
  "iter_str s = map (\<lambda>c. PyStr [c]) s"

text \<open>
  \<open>str(x)\<close>: the identity on a \<open>str\<close>; the display string of any other value comes from
  the formatting facility of the host, the parameter \<open>str_of\<close>.
\<close>

definition py_str :: "('x pyval \<Rightarrow> string) \<Rightarrow> 'x pyval \<Rightarrow> string" where
  "py_str str_of v = (case v of PyStr s \<Rightarrow> s | _ \<Rightarrow> str_of v)"

section \<open>Name validation\<close>

text \<open>
  The loop of \<open>certify_names\<close>, with the set \<open>s\<close> of the names seen so far. The
  four checks on a string are made in the order of the source, after the type check.
\<close>

fun certify_loop :: "string set \<Rightarrow> 'x pyval list \<Rightarrow> 'x error + bool" where
  "certify_loop s [] = Inr True"
| "certify_loop s (N # names) =
     (case N of
        PyStr n \<Rightarrow>
          (case n of
             [] \<Rightarrow> Inl (ValueError NameEmpty)
           | c # cs \<Rightarrow>
               if \<not> str_isalnum (replace_underscore n) then Inl (ValueError (NameNotAlnum n))
               else if \<not> isalpha c then Inl (ValueError (NameNoLetter n))
               else if n \<in> s then Inl (ValueError (NameDuplicate n))
               else certify_loop (insert n s) names)
      | _ \<Rightarrow> Inl (TypeError (NameNotString N)))"

text \<open>\<open>certify_names(names)\<close>, on the items the iterable \<open>names\<close> yields.\<close>

definition certify_names :: "'x pyval list \<Rightarrow> 'x error + bool" where
  "certify_names names = certify_loop {} names"

text \<open>
  A name that passes the checks of \<open>certify_names\<close> on a single string: nonempty,
  alphanumeric once the underscores are removed, and starting with a letter.
\<close>

definition name_ok :: "string \<Rightarrow> bool" where
  "name_ok n = (n \<noteq> [] \<and> str_isalnum (replace_underscore n) \<and> isalpha (hd n))"

text \<open>
  The local variable \<open>names\<close> of \<open>normalize_names\<close> while a string is interpreted: still
  a \<open>str\<close>, or already a sequence of strings.
\<close>

datatype names_work = AsStr string | AsSeq "string list"

text \<open>
  The \<open>else\<close> branch of \<open>normalize_names\<close>: \<open>names\<close> is a string. The function
  \<open>sage.misc.defaults.variable_names\<close> is imported from a module that is not part of the
  sources at hand; it is the parameter \<open>default_variable_names\<close>.
\<close>

definition names_of_string ::
  "(int \<Rightarrow> string \<Rightarrow> string list) \<Rightarrow> int \<Rightarrow> string \<Rightarrow> 'x error + string list" where
  "names_of_string default_variable_names ngens names =
     (case (if CHR '','' \<in> set names then Inr (AsSeq (map strip (split_comma names)))
            else if ngens > 1 \<and> int (length names) = ngens then
              (case (certify_names (iter_str names) :: 'x error + bool) of
                 Inr _ \<Rightarrow> Inr (AsSeq (map (\<lambda>c. [c]) names))
               | Inl (ValueError _) \<Rightarrow> Inr (AsStr names)
               | Inl e \<Rightarrow> Inl e)
            else Inr (AsStr names)) of
        Inl e \<Rightarrow> Inl e
      | Inr (AsSeq l) \<Rightarrow> Inr l
      | Inr (AsStr s) \<Rightarrow>
          if ngens < 0 then Inr [s] else Inr (default_variable_names ngens s))"

text \<open>
  \<open>normalize_names(ngens, names)\<close>. \<open>ngens\<close> is a \<open>Py_ssize_t\<close>; it is only compared,
  so an \<open>int\<close> models it.
\<close>

definition normalize_names ::
  "(int \<Rightarrow> string \<Rightarrow> string list) \<Rightarrow> ('x pyval \<Rightarrow> string) \<Rightarrow> int \<Rightarrow> 'x pyval
     \<Rightarrow> 'x error + string list" where
  "normalize_names default_variable_names str_of ngens names =
     (case (case names of
              PyList xs \<Rightarrow> Inr (map (\<lambda>x. strip (py_str str_of x)) xs)
            | PyTuple xs \<Rightarrow> Inr (map (\<lambda>x. strip (py_str str_of x)) xs)
            | _ \<Rightarrow> names_of_string default_variable_names ngens (py_str str_of names)) of
        Inl e \<Rightarrow> Inl e
      | Inr names' \<Rightarrow>
          (case (certify_names (map PyStr names') :: 'x error + bool) of
             Inl e \<Rightarrow> Inl e
           | Inr _ \<Rightarrow>
               if ngens \<ge> 0 \<and> int (length names') \<noteq> ngens then Inl (IndexError CountMismatch)
               else Inr names'))"

section \<open>The category object\<close>

text \<open>
  The record that \<open>__getstate__\<close> builds and \<open>__setstate__\<close> reads: a dict with the keys
  \<open>_category\<close>, \<open>_base\<close>, \<open>_names\<close> and \<open>_pickle_version\<close>, each of which may be absent
  (outer \<open>None\<close>), and the other entries of the instance dict. A category or a base that is
  present may be Python's \<open>None\<close> (inner \<open>None\<close>).
\<close>

record ('c, 'b, 'x, 'v) state_dict =
  d_other :: "string \<rightharpoonup> 'v"
  d_category :: "'c option option"
  d_base :: "'b option option"
  d_names :: "'x pyval option"
  d_pickle_version :: "int option"

definition empty_dict :: "('c, 'b, 'x, 'v) state_dict" where
  "empty_dict = \<lparr>d_other = Map.empty, d_category = None, d_base = None, d_names = None,
     d_pickle_version = None\<rparr>"

text \<open>
  The fields of a \<open>CategoryObject\<close>: \<open>__cached_methods\<close>, \<open>_category\<close>, \<open>_base\<close>,
  \<open>_names\<close>, \<open>_hash_value\<close> (a C \<open>long\<close>, only stored and compared) and the instance
  \<open>__dict__\<close>, which an extension class need not have (\<open>None\<close>).
\<close>

record ('c, 'b, 'x, 'v) CategoryObject =
  cached_methods :: "string \<rightharpoonup> 'v"
  category_attr :: "'c option"
  base_attr :: "'b option"
  names_attr :: "'x pyval"
  hash_value :: int
  dict_attr :: "('c, 'b, 'x, 'v) state_dict option"

text \<open>
  A category argument: one category, or a list or tuple of categories. The deprecated
  call with \<open>None\<close>, which guesses a category by probing methods of concrete subclasses,
  is outside this model.
\<close>

datatype 'c cat_arg = Cat 'c | CatList "'c list" | CatTuple "'c list"

text \<open>
  A freshly allocated object after \<open>__cinit__\<close>: every Python field is \<open>None\<close>, the
  attribute cache is the empty dict and the hash is \<open>-1\<close>, not yet computed. The flag
  says whether the class has an instance dict.
\<close>

definition cinit :: "bool \<Rightarrow> ('c, 'b, 'x, 'v) CategoryObject" where
  "cinit has_dict =
     \<lparr>cached_methods = Map.empty, category_attr = None, base_attr = None, names_attr = PyNone,
      hash_value = - 1, dict_attr = (if has_dict then Some empty_dict else None)\<rparr>"

text \<open>\<open>_init_category_\<close>; \<open>Category.join\<close> is the parameter \<open>join\<close>.\<close>

definition init_category ::
  "('c list \<Rightarrow> 'c) \<Rightarrow> ('c, 'b, 'x, 'v) CategoryObject \<Rightarrow> 'c cat_arg
     \<Rightarrow> ('c, 'b, 'x, 'v) CategoryObject" where
  "init_category join self category =
     (case category of
        Cat c \<Rightarrow> self\<lparr>category_attr := Some c\<rparr>
      | CatList cs \<Rightarrow> self\<lparr>category_attr := Some (join cs)\<rparr>
      | CatTuple cs \<Rightarrow> self\<lparr>category_attr := Some (join cs)\<rparr>)"

text \<open>\<open>__init__(category, base)\<close>.\<close>

definition init ::
  "('c list \<Rightarrow> 'c) \<Rightarrow> ('c, 'b, 'x, 'v) CategoryObject \<Rightarrow> 'c cat_arg option \<Rightarrow> 'b option
     \<Rightarrow> ('c, 'b, 'x, 'v) CategoryObject" where
  "init join self category base =
     (let self1 = (case base of None \<Rightarrow> self | Some b \<Rightarrow> self\<lparr>base_attr := Some b\<rparr>)
      in case category of None \<Rightarrow> self1 | Some c \<Rightarrow> init_category join self1 c)"

text \<open>\<open>_refine_category_\<close>.\<close>

definition refine_category ::
  "('c list \<Rightarrow> 'c) \<Rightarrow> ('c, 'b, 'x, 'v) CategoryObject \<Rightarrow> 'c cat_arg
     \<Rightarrow> ('c, 'b, 'x, 'v) CategoryObject" where
  "refine_category join self category =
     (case category_attr self of
        None \<Rightarrow> init_category join self category
      | Some current \<Rightarrow>
          (let cs = (case category of Cat c \<Rightarrow> [c] | CatList l \<Rightarrow> l | CatTuple l \<Rightarrow> l)
           in self\<lparr>category_attr := Some (join ([current] @ cs))\<rparr>))"

text \<open>\<open>category()\<close>; \<open>Objects()\<close> is the parameter \<open>objects\<close>.\<close>

definition category ::
  "'c \<Rightarrow> ('c, 'b, 'x, 'v) CategoryObject \<Rightarrow> 'c \<times> ('c, 'b, 'x, 'v) CategoryObject" where
  "category objects self =
     (case category_attr self of
        None \<Rightarrow> (objects, self\<lparr>category_attr := Some objects\<rparr>)
      | Some c \<Rightarrow> (c, self))"

text \<open>\<open>base()\<close>.\<close>

definition base :: "('c, 'b, 'x, 'v) CategoryObject \<Rightarrow> 'b option" where
  "base self = base_attr self"

text \<open>\<open>variable_names()\<close>.\<close>

definition variable_names :: "('c, 'b, 'x, 'v) CategoryObject \<Rightarrow> 'x error + 'x pyval" where
  "variable_names self =
     (if names_attr self \<noteq> PyNone then Inr (names_attr self)
      else Inl (ValueError NamesNotSet))"

text \<open>
  \<open>_assign_names(names, normalize, ngens)\<close>; \<open>ngens\<close> is \<open>None\<close> or an integer. The result
  is the outcome together with the object as the call leaves it.
\<close>

definition assign_names ::
  "(int \<Rightarrow> string \<Rightarrow> string list) \<Rightarrow> ('x pyval \<Rightarrow> string) \<Rightarrow> ('c, 'b, 'x, 'v) CategoryObject
     \<Rightarrow> 'x pyval \<Rightarrow> bool \<Rightarrow> int option
     \<Rightarrow> ('x error + unit) \<times> ('c, 'b, 'x, 'v) CategoryObject" where
  "assign_names default_variable_names str_of self names normalize' ngens =
     (if names = PyNone then (Inr (), self)
      else
        (case (if normalize' then
                 (case normalize_names default_variable_names str_of
                         (case ngens of None \<Rightarrow> - 1 | Some n \<Rightarrow> n) names of
                    Inl e \<Rightarrow> Inl e
                  | Inr t \<Rightarrow> Inr (PyTuple (map PyStr t)))
               else Inr names) of
           Inl e \<Rightarrow> (Inl e, self)
         | Inr names' \<Rightarrow>
             if names_attr self \<noteq> PyNone \<and> names' \<noteq> names_attr self
             then (Inl (ValueError NamesChanged), self)
             else
               (case names' of
                  PyStr s \<Rightarrow> (Inr (), self\<lparr>names_attr := PyTuple [PyStr s]\<rparr>)
                | PyList l \<Rightarrow> (Inr (), self\<lparr>names_attr := PyTuple l\<rparr>)
                | PyTuple l \<Rightarrow> (Inr (), self\<lparr>names_attr := PyTuple l\<rparr>)
                | _ \<Rightarrow> (Inl (TypeError NamesNotTuple), self))))"

section \<open>Pickling\<close>

text \<open>
  \<open>__getstate__\<close>: a copy of the instance dict with the four keys set. On an object
  without an instance dict the read of \<open>__dict__\<close> raises \<open>AttributeError\<close>, which is
  caught, and the dict starts empty.
\<close>

definition getstate :: "('c, 'b, 'x, 'v) CategoryObject \<Rightarrow> ('c, 'b, 'x, 'v) state_dict" where
  "getstate self =
     (let d = (case dict_attr self of Some own \<Rightarrow> own | None \<Rightarrow> empty_dict)
      in d\<lparr>d_category := Some (category_attr self), d_base := Some (base_attr self),
           d_names := Some (names_attr self), d_pickle_version := Some 1\<rparr>)"

text \<open>
  \<open>self.__dict__ = d\<close> inside \<open>try ... except AttributeError: pass\<close>: an object without an
  instance dict is left as it is.
\<close>

definition set_dict ::
  "('c, 'b, 'x, 'v) CategoryObject \<Rightarrow> ('c, 'b, 'x, 'v) state_dict
     \<Rightarrow> ('c, 'b, 'x, 'v) CategoryObject" where
  "set_dict self d = (case dict_attr self of None \<Rightarrow> self | Some _ \<Rightarrow> self\<lparr>dict_attr := Some d\<rparr>)"

text \<open>
  \<open>__setstate__(d)\<close>. A missing \<open>_pickle_version\<close> means version 0. Under version 1 a
  missing key raises \<open>KeyError\<close>, which the outer handler re-raises; the fields assigned
  before it stay assigned. Under version 0 the inner handler swallows it.
\<close>

definition setstate ::
  "('c list \<Rightarrow> 'c) \<Rightarrow> ('c, 'b, 'x, 'v) CategoryObject \<Rightarrow> ('c, 'b, 'x, 'v) state_dict
     \<Rightarrow> ('x error + unit) \<times> ('c, 'b, 'x, 'v) CategoryObject" where
  "setstate join self d =
     (let version = (case d_pickle_version d of None \<Rightarrow> 0 | Some v \<Rightarrow> v) in
      if version = 1 then
        (case d_category d of
           None \<Rightarrow> (Inl (KeyError (MissingKey ''_category'')), self)
         | Some dc \<Rightarrow>
             (let self1 =
                (case dc of
                   None \<Rightarrow> self
                 | Some c \<Rightarrow>
                     (case category_attr self of
                        None \<Rightarrow> self\<lparr>category_attr := Some c\<rparr>
                      | Some current \<Rightarrow> self\<lparr>category_attr := Some (join [current, c])\<rparr>))
              in case d_base d of
                   None \<Rightarrow> (Inl (KeyError (MissingKey ''_base'')), self1)
                 | Some b \<Rightarrow>
                     (case d_names d of
                        None \<Rightarrow> (Inl (KeyError (MissingKey ''_names'')), self1\<lparr>base_attr := b\<rparr>)
                      | Some n \<Rightarrow> (Inr (), set_dict (self1\<lparr>base_attr := b, names_attr := n\<rparr>) d))))
      else if version = 0 then
        (let self1 =
           (case d_base d of
              None \<Rightarrow> self
            | Some b \<Rightarrow>
                (case d_names d of
                   None \<Rightarrow> self\<lparr>base_attr := b\<rparr>
                 | Some n \<Rightarrow> self\<lparr>base_attr := b, names_attr := n\<rparr>))
         in (Inr (), set_dict self1 d))
      else (Inr (), set_dict self d))"

text \<open>\<open>__hash__\<close>; the hash of the display string is the parameter \<open>hash_repr\<close>.\<close>

definition hash_method ::
  "(('c, 'b, 'x, 'v) CategoryObject \<Rightarrow> int) \<Rightarrow> ('c, 'b, 'x, 'v) CategoryObject
     \<Rightarrow> int \<times> ('c, 'b, 'x, 'v) CategoryObject" where
  "hash_method hash_repr self =
     (if hash_value self = - 1
      then (hash_repr self, self\<lparr>hash_value := hash_repr self\<rparr>)
      else (hash_value self, self))"

section \<open>Attributes from the category\<close>

text \<open>
  A class, as far as attribute lookup sees it: the tables of the class and of its
  superclasses, in resolution order.
\<close>

type_synonym 'a pyclass = "(string \<rightharpoonup> 'a) list"

fun class_lookup :: "'a pyclass \<Rightarrow> string \<Rightarrow> 'a option" where
  "class_lookup [] name = None"
| "class_lookup (t # ts) name = (case t name of Some a \<Rightarrow> Some a | None \<Rightarrow> class_lookup ts name)"

text \<open>
  Modelled from the spec: \<open>getattr_from_other_class\<close> is imported from
  \<open>sage.cpython.getattr\<close>, which is not among the sources. The spec: search the behavior
  table and its superclass chain for the name; if found, bind a plain function to the
  object as a method, or invoke the binding protocol of a descriptor against the object
  (both are the parameter \<open>bind\<close>); if not found, fail with an attribute error that
  names the attribute.
\<close>

definition getattr_from_other_class ::
  "('a \<Rightarrow> 'self \<Rightarrow> 'v) \<Rightarrow> 'self \<Rightarrow> 'a pyclass \<Rightarrow> string \<Rightarrow> 'x error + 'v" where
  "getattr_from_other_class bind self cls name =
     (case class_lookup cls name of
        None \<Rightarrow> Inl (AttributeError (NoAttribute name))
      | Some a \<Rightarrow> Inr (bind a self))"

text \<open>
  \<open>getattr_from_category(name)\<close>, which \<open>__getattr__\<close> calls. The parameters are the
  \<open>parent_class\<close> of a category, the builtin \<open>type\<close> that stands in when no category is
  set, and the imported lookup \<open>getattr_from_other_class\<close> (here \<open>lookup\<close>).
\<close>

definition getattr_from_category ::
  "('c \<Rightarrow> 'k) \<Rightarrow> 'k
     \<Rightarrow> (('c, 'b, 'x, 'v) CategoryObject \<Rightarrow> 'k \<Rightarrow> string \<Rightarrow> 'x error + 'v)
     \<Rightarrow> ('c, 'b, 'x, 'v) CategoryObject \<Rightarrow> string
     \<Rightarrow> ('x error + 'v) \<times> ('c, 'b, 'x, 'v) CategoryObject" where
  "getattr_from_category parent_class builtin_type lookup self name =
     (case cached_methods self name of
        Some v \<Rightarrow> (Inr v, self)
      | None \<Rightarrow>
          (let cls = (case category_attr self of None \<Rightarrow> builtin_type | Some c \<Rightarrow> parent_class c)
           in case lookup self cls name of
                Inl e \<Rightarrow> (Inl e, self)
              | Inr attr \<Rightarrow> (Inr attr, self\<lparr>cached_methods := (cached_methods self)(name \<mapsto> attr)\<rparr>)))"

section \<open>An example instance\<close>

text \<open>
  Concrete parameters on which the statements below are evaluated. A category is the set
  of the axioms it imposes, and the join of categories imposes all of them. The parent
  class of a category has a method \<open>f\<close> when the category has axiom 1 and, in a
  superclass, a method \<open>g\<close> when it has axiom 2. Binding returns the table entry.
\<close>

definition example_join :: "nat set list \<Rightarrow> nat set" where
  "example_join cs = \<Union> (set cs)"

definition example_parent_class :: "nat set \<Rightarrow> nat pyclass" where
  "example_parent_class c =
     [(\<lambda>name. if name = ''f'' \<and> 1 \<in> c then Some 7 else None),
      (\<lambda>name. if name = ''g'' \<and> 2 \<in> c then Some 8 else None)]"

definition example_lookup ::
  "(nat set, nat, nat, nat) CategoryObject \<Rightarrow> nat pyclass \<Rightarrow> string \<Rightarrow> nat error + nat" where
  "example_lookup = getattr_from_other_class (\<lambda>a self. a)"

text \<open>An object constructed with the category \<open>{1}\<close> and the base \<open>5\<close>.\<close>

definition example_object :: "(nat set, nat, nat, nat) CategoryObject" where
  "example_object = init example_join (cinit True) (Some (Cat {1})) (Some 5)"

text \<open>A hash of the display string, for the example: the constant 42.\<close>

definition example_hash_repr :: "(nat set, nat, nat, nat) CategoryObject \<Rightarrow> int" where
  "example_hash_repr self = 42"

text \<open>The example object after it has resolved \<open>f\<close> and has been hashed.\<close>

definition example_used :: "(nat set, nat, nat, nat) CategoryObject" where
  "example_used =
     snd (hash_method example_hash_repr
       (snd (getattr_from_category example_parent_class [] example_lookup example_object ''f'')))"

section \<open>Validation of names\<close>

lemma certify_loop_PyStr:
  "certify_loop s (PyStr n # ns) =
     (if n = [] then Inl (ValueError NameEmpty)
      else if \<not> str_isalnum (replace_underscore n) then Inl (ValueError (NameNotAlnum n))
      else if \<not> isalpha (hd n) then Inl (ValueError (NameNoLetter n))
      else if n \<in> s then Inl (ValueError (NameDuplicate n))
      else certify_loop (insert n s) ns)"
  by (cases n) simp_all

lemma certify_loop_not_str:
  "\<forall>n. N \<noteq> PyStr n \<Longrightarrow> certify_loop s (N # ns) = Inl (TypeError (NameNotString N))"
  by (cases N) simp_all

declare certify_loop.simps(2) [simp del]

lemma certify_loop_not_False: "certify_loop s ns \<noteq> Inr False"
proof (induction ns arbitrary: s)
  case Nil
  then show ?case by simp
next
  case (Cons N ns)
  then show ?case
    by (cases N) (simp_all add: certify_loop_PyStr certify_loop_not_str)
qed

lemma certify_loop_ok_iff:
  "certify_loop s ns = Inr True \<longleftrightarrow>
     (\<forall>N \<in> set ns. \<exists>n. N = PyStr n \<and> name_ok n \<and> n \<notin> s) \<and> distinct ns"
proof (induction ns arbitrary: s)
  case Nil
  then show ?case by simp
next
  case (Cons N ns)
  show ?case
  proof (cases N)
    case (PyStr n)
    with Cons.IH [of "insert n s"] show ?thesis
      by (auto simp: name_ok_def certify_loop_PyStr)
  qed (simp_all add: certify_loop_not_str)
qed

lemma certify_loop_error:
  "certify_loop s ns = Inl e \<Longrightarrow>
     \<exists>pre N post. ns = pre @ N # post \<and> certify_loop s pre = Inr True \<and>
       ((\<forall>n. N \<noteq> PyStr n) \<and> e = TypeError (NameNotString N)
        \<or> N = PyStr [] \<and> e = ValueError NameEmpty
        \<or> (\<exists>n. N = PyStr n \<and> n \<noteq> [] \<and> \<not> str_isalnum (replace_underscore n)
              \<and> e = ValueError (NameNotAlnum n))
        \<or> (\<exists>n. N = PyStr n \<and> n \<noteq> [] \<and> str_isalnum (replace_underscore n)
              \<and> \<not> isalpha (hd n) \<and> e = ValueError (NameNoLetter n))
        \<or> (\<exists>n. N = PyStr n \<and> name_ok n \<and> (n \<in> s \<or> N \<in> set pre)
              \<and> e = ValueError (NameDuplicate n)))"
  (is "_ \<Longrightarrow> \<exists>pre N post. ?Q s ns pre N post")
proof (induction ns arbitrary: s)
  case Nil
  then show ?case by simp
next
  case (Cons M ns)
  show ?case
  proof (cases "certify_loop s [M] = Inr True")
    case False
    have "?Q s (M # ns) [] M ns"
    proof (cases M)
      case (PyStr n)
      with Cons.prems False show ?thesis
        by (auto simp: name_ok_def certify_loop_PyStr split: if_splits)
    qed (use Cons.prems in \<open>auto simp: certify_loop_not_str\<close>)
    then show ?thesis by blast
  next
    case True
    then obtain n where M: "M = PyStr n" and ok: "name_ok n" and fresh: "n \<notin> s"
      using certify_loop_ok_iff [of s "[M]"] by auto
    then have step: "\<And>xs. certify_loop s (M # xs) = certify_loop (insert n s) xs"
      by (simp add: certify_loop_PyStr name_ok_def)
    with Cons.prems have "certify_loop (insert n s) ns = Inl e" by simp
    from Cons.IH [OF this] obtain pre N post where Q: "?Q (insert n s) ns pre N post"
      by blast
    then have "?Q s (M # ns) (M # pre) N post"
      using step M by auto
    then show ?thesis by blast
  qed
qed

lemma certify_names_examples:
  "(certify_names [PyStr ''''] :: 'x error + bool) = Inl (ValueError NameEmpty)"
  "(certify_names [PyStr ''_x''] :: 'x error + bool) = Inl (ValueError (NameNoLetter ''_x''))"
  "(certify_names [PyStr ''x'', PyStr ''x''] :: 'x error + bool) = Inl (ValueError (NameDuplicate ''x''))"
  "(certify_names [PyStr [CHR ''x'', CHR 0x27]] :: 'x error + bool)
     = Inl (ValueError (NameNotAlnum [CHR ''x'', CHR 0x27]))"
  by (simp_all add: certify_names_def certify_loop_PyStr str_isalnum_def replace_underscore_def
      isalpha_def isdigit_def)

text \<open>
  C6: \<open>certify_names\<close> returns true exactly when every item is a string that is
  nonempty, alphanumeric up to underscores and starts with a letter, and no item occurs
  twice; it never returns false. When it raises, the items before some item all pass,
  and the error is the first check, in the order of the source, that this item fails:
  not a string, empty, not alphanumeric, not starting with a letter, equal to an earlier
  item. The items after it play no part. The four rejected batches of the specification
  raise the errors it names.
\<close>

theorem certify_names_first_violation:
  "(certify_names names = Inr True \<longleftrightarrow>
      (\<forall>N \<in> set names. \<exists>n. N = PyStr n \<and> name_ok n) \<and> distinct names)
   \<and> certify_names names \<noteq> Inr False
   \<and> (certify_names names = Inl e \<longrightarrow>
        (\<exists>pre N post. names = pre @ N # post \<and> certify_names pre = Inr True \<and>
           ((\<forall>n. N \<noteq> PyStr n) \<and> e = TypeError (NameNotString N)
            \<or> N = PyStr [] \<and> e = ValueError NameEmpty
            \<or> (\<exists>n. N = PyStr n \<and> n \<noteq> [] \<and> \<not> str_isalnum (replace_underscore n)
                  \<and> e = ValueError (NameNotAlnum n))
            \<or> (\<exists>n. N = PyStr n \<and> n \<noteq> [] \<and> str_isalnum (replace_underscore n)
                  \<and> \<not> isalpha (hd n) \<and> e = ValueError (NameNoLetter n))
            \<or> (\<exists>n. N = PyStr n \<and> name_ok n \<and> N \<in> set pre
                  \<and> e = ValueError (NameDuplicate n)))))
   \<and> certify_names [PyStr '''' :: 'x pyval] = Inl (ValueError NameEmpty)
   \<and> certify_names [PyStr ''_x'' :: 'x pyval] = Inl (ValueError (NameNoLetter ''_x''))
   \<and> certify_names [PyStr ''x'', PyStr ''x'' :: 'x pyval] = Inl (ValueError (NameDuplicate ''x''))
   \<and> certify_names [PyStr [CHR ''x'', CHR 0x27] :: 'x pyval]
       = Inl (ValueError (NameNotAlnum [CHR ''x'', CHR 0x27]))"
proof -
  have ok: "certify_names names = Inr True \<longleftrightarrow>
      (\<forall>N \<in> set names. \<exists>n. N = PyStr n \<and> name_ok n) \<and> distinct names"
    unfolding certify_names_def by (simp add: certify_loop_ok_iff)
  have nf: "certify_names names \<noteq> Inr False"
    unfolding certify_names_def by (rule certify_loop_not_False)
  have err: "certify_names names = Inl e \<longrightarrow>
        (\<exists>pre N post. names = pre @ N # post \<and> certify_names pre = Inr True \<and>
           ((\<forall>n. N \<noteq> PyStr n) \<and> e = TypeError (NameNotString N)
            \<or> N = PyStr [] \<and> e = ValueError NameEmpty
            \<or> (\<exists>n. N = PyStr n \<and> n \<noteq> [] \<and> \<not> str_isalnum (replace_underscore n)
                  \<and> e = ValueError (NameNotAlnum n))
            \<or> (\<exists>n. N = PyStr n \<and> n \<noteq> [] \<and> str_isalnum (replace_underscore n)
                  \<and> \<not> isalpha (hd n) \<and> e = ValueError (NameNoLetter n))
            \<or> (\<exists>n. N = PyStr n \<and> name_ok n \<and> N \<in> set pre
                  \<and> e = ValueError (NameDuplicate n))))"
    unfolding certify_names_def
    using certify_loop_error [of "{}" names e] by simp
  show ?thesis
    using ok nf err certify_names_examples [where ?'x = 'x] by blast
qed

theorem certify_names_first_violation_witness:
  "certify_names [PyStr ''a'', PyStr ''b'', PyStr ''c'' :: nat pyval] = Inr True
   \<and> distinct [PyStr ''a'', PyStr ''b'', PyStr ''c'' :: nat pyval]
   \<and> certify_names [PyStr ''a'', PyStr ''b'', PyStr ''b'', PyStr ''1'' :: nat pyval]
       = Inl (ValueError (NameDuplicate ''b''))
   \<and> (\<exists>pre N post. [PyStr ''a'', PyStr ''b'', PyStr ''b'', PyStr ''1'' :: nat pyval] = pre @ N # post
         \<and> certify_names pre = Inr True)"
proof -
  let ?good = "[PyStr ''a'', PyStr ''b'', PyStr ''c'' :: nat pyval]"
  let ?bad = "[PyStr ''a'', PyStr ''b'', PyStr ''b'', PyStr ''1'' :: nat pyval]"
  have names_ok: "\<forall>N \<in> set ?good. \<exists>n. N = PyStr n \<and> name_ok n"
    by (simp add: name_ok_def str_isalnum_def replace_underscore_def isalpha_def isdigit_def)
  have d: "distinct ?good" by simp
  have 1: "certify_names ?good = Inr True"
    using certify_names_first_violation [where names = ?good] names_ok d by blast
  have fails: "certify_names ?bad = Inl (ValueError (NameDuplicate ''b''))"
    by (simp add: certify_names_def certify_loop_PyStr str_isalnum_def replace_underscore_def
        isalpha_def isdigit_def)
  have 2: "\<exists>pre N post. ?bad = pre @ N # post \<and> certify_names pre = Inr True"
    using certify_names_first_violation [where names = ?bad and e = "ValueError (NameDuplicate ''b'')"]
      fails by blast
  show ?thesis using 1 d fails 2 by blast
qed

section \<open>Normalisation of names\<close>

lemma certify_loop_strings_error:
  "certify_loop s (map PyStr l) = Inl e \<Longrightarrow> \<exists>m. e = ValueError m"
  by (induction l arbitrary: s) (auto simp: certify_loop_PyStr split: if_splits)

lemma certify_names_strings_error:
  "certify_names (map PyStr l) = Inl e \<Longrightarrow> \<exists>m. e = ValueError m"
  unfolding certify_names_def by (rule certify_loop_strings_error)

lemma iter_str_map: "iter_str s = map PyStr (map (\<lambda>c. [c]) s)"
  by (simp add: iter_str_def)

lemma names_of_string_total:
  "\<exists>l. (names_of_string dvn ngens s :: 'x error + string list) = Inr l"
proof (cases "certify_names (iter_str s) :: 'x error + bool")
  case (Inl e)
  then obtain m where "e = ValueError m"
    using certify_names_strings_error [of "map (\<lambda>c. [c]) s" e] by (auto simp: iter_str_map)
  with Inl show ?thesis by (simp add: names_of_string_def)
next
  case (Inr b)
  then show ?thesis by (simp add: names_of_string_def)
qed

lemma normalize_names_certified:
  assumes "normalize_names dvn str_of ngens (names :: 'x pyval) = Inr t"
  shows "(certify_names (map PyStr t) :: 'x error + bool) = Inr True"
    and "0 \<le> ngens \<Longrightarrow> int (length t) = ngens"
proof -
  define cand :: "'x error + string list" where
    "cand = (case names of
              PyList xs \<Rightarrow> Inr (map (\<lambda>x. strip (py_str str_of x)) xs)
            | PyTuple xs \<Rightarrow> Inr (map (\<lambda>x. strip (py_str str_of x)) xs)
            | _ \<Rightarrow> names_of_string dvn ngens (py_str str_of names))"
  have eq: "(case cand of Inl e \<Rightarrow> Inl e
      | Inr names' \<Rightarrow>
          (case (certify_names (map PyStr names') :: 'x error + bool) of
             Inl e \<Rightarrow> Inl e
           | Inr _ \<Rightarrow>
               if ngens \<ge> 0 \<and> int (length names') \<noteq> ngens then Inl (IndexError CountMismatch)
               else Inr names')) = Inr t"
    using assms unfolding normalize_names_def cand_def by simp
  then obtain l where l: "cand = Inr l" by (cases cand) auto
  with eq obtain b where b: "(certify_names (map PyStr l) :: 'x error + bool) = Inr b"
    by (cases "certify_names (map PyStr l) :: 'x error + bool") auto
  with eq l have t: "t = l" and len: "\<not> (ngens \<ge> 0 \<and> int (length l) \<noteq> ngens)"
    by (auto split: if_splits)
  from b certify_loop_not_False [of "{}" "map PyStr l :: 'x pyval list"] have "b = True"
    by (cases b) (auto simp: certify_names_def)
  with b t show "(certify_names (map PyStr t) :: 'x error + bool) = Inr True" by simp
  from len t show "0 \<le> ngens \<Longrightarrow> int (length t) = ngens" by simp
qed

lemma normalize_names_error:
  assumes "normalize_names dvn str_of ngens (names :: 'x pyval) = Inl e"
  shows "(\<exists>m. e = ValueError m) \<or> e = IndexError CountMismatch"
proof -
  define cand :: "'x error + string list" where
    "cand = (case names of
              PyList xs \<Rightarrow> Inr (map (\<lambda>x. strip (py_str str_of x)) xs)
            | PyTuple xs \<Rightarrow> Inr (map (\<lambda>x. strip (py_str str_of x)) xs)
            | _ \<Rightarrow> names_of_string dvn ngens (py_str str_of names))"
  have eq: "(case cand of Inl e \<Rightarrow> Inl e
      | Inr names' \<Rightarrow>
          (case (certify_names (map PyStr names') :: 'x error + bool) of
             Inl e \<Rightarrow> Inl e
           | Inr _ \<Rightarrow>
               if ngens \<ge> 0 \<and> int (length names') \<noteq> ngens then Inl (IndexError CountMismatch)
               else Inr names')) = Inl e"
    using assms unfolding normalize_names_def cand_def by simp
  have "\<exists>l. cand = Inr l"
    unfolding cand_def using names_of_string_total [of dvn ngens "py_str str_of names"]
    by (cases names) auto
  then obtain l where l: "cand = Inr l" by blast
  show ?thesis
  proof (cases "certify_names (map PyStr l) :: 'x error + bool")
    case (Inl e')
    with eq l have "e = e'" by simp
    with Inl certify_names_strings_error [of l e'] show ?thesis by simp
  next
    case (Inr b)
    with eq l show ?thesis by (auto split: if_splits)
  qed
qed

lemma name_ok_chars:
  assumes "name_ok n"
  shows "n \<noteq> []" and "isalpha (hd n)"
    and "\<forall>c \<in> set n. isalpha c \<or> isdigit c \<or> c = CHR ''_''"
  using assms by (auto simp: name_ok_def str_isalnum_def replace_underscore_def list_all_iff)

lemma certify_names_strings_ok:
  assumes "(certify_names (map PyStr t) :: 'x error + bool) = Inr True"
  shows "distinct t" and "\<forall>n \<in> set t. name_ok n"
  using assms unfolding certify_names_def certify_loop_ok_iff
  by (auto simp: distinct_map)


lemmas eval_names =
  normalize_names_def names_of_string_def py_str_def certify_names_def certify_loop_PyStr
  iter_str_def str_isalnum_def replace_underscore_def isalpha_def isdigit_def strip_def isspace_def

lemma normalize_names_examples:
  "normalize_names dvn str_of 3 (PyStr ''x,y,z'' :: 'x pyval) = Inr [''x'', ''y'', ''z'']"
  "normalize_names dvn str_of 2 (PyStr ''ab'' :: 'x pyval) = Inr [''a'', ''b'']"
  "normalize_names dvn str_of (- 1) (PyStr ''a'' :: 'x pyval) = Inr [''a'']"
  "normalize_names dvn str_of 3 (PyList [PyStr ''x'', PyStr ''y''] :: 'x pyval)
     = Inl (IndexError CountMismatch)"
  by (simp_all add: eval_names)

lemma normalize_names_count_list:
  assumes "0 \<le> ngens"
    and "(certify_names (map (\<lambda>x. PyStr (strip (py_str str_of x))) xs) :: 'x error + bool) = Inr True"
    and "int (length xs) \<noteq> ngens"
  shows "normalize_names dvn str_of ngens (PyList xs :: 'x pyval) = Inl (IndexError CountMismatch)"
    and "normalize_names dvn str_of ngens (PyTuple xs :: 'x pyval) = Inl (IndexError CountMismatch)"
  using assms by (simp_all add: normalize_names_def comp_def)

lemma normalize_names_count_commas:
  assumes "0 \<le> ngens" and "CHR '','' \<in> set s"
    and "(certify_names (map (\<lambda>w. PyStr (strip w)) (split_comma s)) :: 'x error + bool) = Inr True"
    and "int (length (split_comma s)) \<noteq> ngens"
  shows "normalize_names dvn str_of ngens (PyStr s :: 'x pyval) = Inl (IndexError CountMismatch)"
  using assms by (simp add: normalize_names_def names_of_string_def py_str_def comp_def)

lemma not_isspace_name_char:
  "isalpha c \<or> isdigit c \<or> c = CHR ''_'' \<Longrightarrow> \<not> isspace c"
  by (auto simp: isalpha_def isdigit_def isspace_def)

lemma strip_no_space:
  assumes "\<forall>c \<in> set s. \<not> isspace c"
  shows "strip s = s"
proof -
  have "dropWhile isspace s = s"
    using assms by (cases s) auto
  moreover have "dropWhile isspace (rev s) = rev s"
    using assms by (cases "rev s") (auto simp: rev_eq_Cons_iff)
  ultimately show ?thesis by (simp add: strip_def)
qed

lemma strip_name_ok: "name_ok n \<Longrightarrow> strip n = n"
  using name_ok_chars(3) [of n] not_isspace_name_char by (intro strip_no_space) blast

lemma normalize_names_list_ok:
  assumes "(certify_names (map (\<lambda>x. PyStr (strip (py_str str_of x))) xs) :: 'x error + bool) = Inr True"
    and "ngens < 0 \<or> int (length xs) = ngens"
  shows "normalize_names dvn str_of ngens (PyList xs :: 'x pyval)
           = Inr (map (\<lambda>x. strip (py_str str_of x)) xs)"
    and "normalize_names dvn str_of ngens (PyTuple xs :: 'x pyval)
           = Inr (map (\<lambda>x. strip (py_str str_of x)) xs)"
  using assms by (auto simp: normalize_names_def comp_def)

lemma normalize_names_commas_ok:
  assumes "CHR '','' \<in> set s"
    and "(certify_names (map (\<lambda>w. PyStr (strip w)) (split_comma s)) :: 'x error + bool) = Inr True"
    and "ngens < 0 \<or> int (length (split_comma s)) = ngens"
  shows "normalize_names dvn str_of ngens (PyStr s :: 'x pyval) = Inr (map strip (split_comma s))"
  using assms by (auto simp: normalize_names_def names_of_string_def py_str_def comp_def)

lemma normalize_names_chars_ok:
  assumes "CHR '','' \<notin> set s" and "1 < ngens" and "int (length s) = ngens"
    and "(certify_names (iter_str s) :: 'x error + bool) = Inr True"
  shows "normalize_names dvn str_of ngens (PyStr s :: 'x pyval) = Inr (map (\<lambda>c. [c]) s)"
  using assms
  by (auto simp: normalize_names_def names_of_string_def py_str_def comp_def iter_str_def)

lemma normalize_names_idempotent:
  assumes "(certify_names (map PyStr t) :: 'x error + bool) = Inr True"
    and "ngens < 0 \<or> int (length t) = ngens"
  shows "normalize_names dvn str_of ngens (PyTuple (map PyStr t) :: 'x pyval) = Inr t"
proof -
  have ok: "\<forall>n \<in> set t. name_ok n"
    using assms(1) by (rule certify_names_strings_ok(2))
  then have m: "map (\<lambda>x. strip (py_str str_of x)) (map PyStr t :: 'x pyval list) = t"
    by (simp add: py_str_def comp_def strip_name_ok map_idI)
  have "(certify_names (map (\<lambda>x. PyStr (strip (py_str str_of x))) (map PyStr t :: 'x pyval list))
      :: 'x error + bool) = Inr True"
    using assms(1) ok by (simp add: py_str_def comp_def strip_name_ok cong: map_cong)
  from normalize_names_list_ok(2) [OF this, of ngens dvn] assms(2) m
  show ?thesis by simp
qed

lemma names_of_string_prefix:
  assumes "CHR '','' \<notin> set s"
    and "ngens \<le> 1 \<or> int (length s) \<noteq> ngens
         \<or> (certify_names (iter_str s) :: 'x error + bool) \<noteq> Inr True"
  shows "(names_of_string dvn ngens s :: 'x error + string list)
           = (if ngens < 0 then Inr [s] else Inr (dvn ngens s))"
proof (cases "ngens > 1 \<and> int (length s) = ngens")
  case False
  with assms(1) show ?thesis by (auto simp: names_of_string_def)
next
  case True
  with assms(2) have nt: "(certify_names (iter_str s) :: 'x error + bool) \<noteq> Inr True" by auto
  show ?thesis
  proof (cases "certify_names (iter_str s) :: 'x error + bool")
    case (Inl e)
    then obtain m where "e = ValueError m"
      using certify_names_strings_error [of "map (\<lambda>c. [c]) s" e] by (auto simp: iter_str_map)
    with Inl assms(1) True show ?thesis by (simp add: names_of_string_def)
  next
    case (Inr b)
    with nt have "b = False" by (cases b) auto
    with Inr certify_loop_not_False [of "{}" "iter_str s :: 'x pyval list"] show ?thesis
      by (simp add: certify_names_def)
  qed
qed

lemma normalize_names_prefix:
  assumes "CHR '','' \<notin> set s"
    and "ngens \<le> 1 \<or> int (length s) \<noteq> ngens
         \<or> (certify_names (iter_str s) :: 'x error + bool) \<noteq> Inr True"
    and "0 \<le> ngens"
  shows "normalize_names dvn str_of ngens (PyStr s :: 'x pyval) =
           (case (certify_names (map PyStr (dvn ngens s)) :: 'x error + bool) of
              Inl e \<Rightarrow> Inl e
            | Inr _ \<Rightarrow>
                if int (length (dvn ngens s)) \<noteq> ngens then Inl (IndexError CountMismatch)
                else Inr (dvn ngens s))"
proof -
  have "(names_of_string dvn ngens s :: 'x error + string list) = Inr (dvn ngens s)"
    using names_of_string_prefix [OF assms(1,2), of dvn] assms(3) by simp
  with assms(3) show ?thesis
    by (cases "certify_names (map PyStr (dvn ngens s)) :: 'x error + bool")
      (simp_all add: normalize_names_def py_str_def)
qed

lemma normalize_names_prefix_ok:
  assumes "CHR '','' \<notin> set s"
    and "ngens \<le> 1 \<or> int (length s) \<noteq> ngens
         \<or> (certify_names (iter_str s) :: 'x error + bool) \<noteq> Inr True"
    and "0 \<le> ngens"
    and "(certify_names (map PyStr (dvn ngens s)) :: 'x error + bool) = Inr True"
    and "int (length (dvn ngens s)) = ngens"
  shows "normalize_names dvn str_of ngens (PyStr s :: 'x pyval) = Inr (dvn ngens s)"
  using normalize_names_prefix [OF assms(1,2,3), of dvn str_of] assms(4,5) by simp

lemma normalize_names_prefix_count:
  assumes "CHR '','' \<notin> set s"
    and "ngens \<le> 1 \<or> int (length s) \<noteq> ngens
         \<or> (certify_names (iter_str s) :: 'x error + bool) \<noteq> Inr True"
    and "0 \<le> ngens"
    and "(certify_names (map PyStr (dvn ngens s)) :: 'x error + bool) = Inr True"
    and "int (length (dvn ngens s)) \<noteq> ngens"
  shows "normalize_names dvn str_of ngens (PyStr s :: 'x pyval) = Inl (IndexError CountMismatch)"
  using normalize_names_prefix [OF assms(1,2,3), of dvn str_of] assms(4,5) by simp

lemma normalize_names_prefix_invalid:
  assumes "CHR '','' \<notin> set s"
    and "ngens \<le> 1 \<or> int (length s) \<noteq> ngens
         \<or> (certify_names (iter_str s) :: 'x error + bool) \<noteq> Inr True"
    and "0 \<le> ngens"
    and "(certify_names (map PyStr (dvn ngens s)) :: 'x error + bool) = Inl e"
  shows "normalize_names dvn str_of ngens (PyStr s :: 'x pyval) = Inl e"
  using normalize_names_prefix [OF assms(1,2,3), of dvn str_of] assms(4) by simp

lemma normalize_names_single_unknown:
  assumes "CHR '','' \<notin> set s" and "ngens < 0"
    and "(certify_names [PyStr s] :: 'x error + bool) = Inr True"
  shows "normalize_names dvn str_of ngens (PyStr s :: 'x pyval) = Inr [s]"
  using assms by (simp add: normalize_names_def names_of_string_def py_str_def)

lemma normalize_names_display_string:
  assumes "\<forall>xs. v \<noteq> PyList xs" and "\<forall>xs. v \<noteq> PyTuple xs"
  shows "normalize_names dvn str_of ngens (v :: 'x pyval)
           = normalize_names dvn str_of ngens (PyStr (py_str str_of v))"
  using assms by (cases v) (simp_all add: normalize_names_def py_str_def)

text \<open>
  C5: whenever \<open>normalize_names(ngens, names)\<close> returns, the names it returns are
  pairwise different, each starts with a letter and consists of letters, digits and
  underscores, and for \<open>ngens \<ge> 0\<close> there are exactly \<open>ngens\<close> of them. This holds
  for every shape of \<open>names\<close> and every implementation of the imported prefix expansion.
  When it raises, the error is a \<open>ValueError\<close> of the name checks or the \<open>IndexError\<close>
  of the count check (both are validation errors in the taxonomy of the specification,
  which lists the wrong count among them). A list, a tuple or a comma-separated string
  whose names pass the checks and whose count differs from \<open>ngens \<ge> 0\<close> raises the count
  error; when the count agrees, or is unknown, it is returned as the tuple of its
  stripped names. A string without comma of length \<open>ngens > 1\<close> whose characters are
  names is returned as the tuple of its characters. Any other string without comma is
  a prefix: for \<open>ngens \<ge> 0\<close> the result is what the imported expansion makes of it,
  returned when those names pass the checks and there are \<open>ngens\<close> of them, and
  refused with the error of the checks or of the count otherwise; for an unknown count
  it is the single name itself. A value that is neither list nor tuple is treated as
  its display string. The four scenarios of the specification evaluate as stated.
\<close>

theorem normalize_names_valid:
  "(normalize_names dvn str_of ngens (names :: 'x pyval) = Inr t \<longrightarrow>
      (0 \<le> ngens \<longrightarrow> int (length t) = ngens) \<and> distinct t \<and>
      (\<forall>name \<in> set t. name \<noteq> [] \<and> isalpha (hd name) \<and>
         (\<forall>c \<in> set name. isalpha c \<or> isdigit c \<or> c = CHR ''_'')))
   \<and> (normalize_names dvn str_of ngens names = Inl e \<longrightarrow>
        (\<exists>m. e = ValueError m) \<or> e = IndexError CountMismatch)
   \<and> (0 \<le> ngens \<longrightarrow> int (length xs) \<noteq> ngens \<longrightarrow>
        (certify_names (map (\<lambda>x. PyStr (strip (py_str str_of x))) xs) :: 'x error + bool) = Inr True \<longrightarrow>
        normalize_names dvn str_of ngens (PyList xs) = Inl (IndexError CountMismatch)
        \<and> normalize_names dvn str_of ngens (PyTuple xs) = Inl (IndexError CountMismatch))
   \<and> (0 \<le> ngens \<longrightarrow> CHR '','' \<in> set s \<longrightarrow> int (length (split_comma s)) \<noteq> ngens \<longrightarrow>
        (certify_names (map (\<lambda>w. PyStr (strip w)) (split_comma s)) :: 'x error + bool) = Inr True \<longrightarrow>
        normalize_names dvn str_of ngens (PyStr s :: 'x pyval) = Inl (IndexError CountMismatch))
   \<and> ((certify_names (map (\<lambda>x. PyStr (strip (py_str str_of x))) xs) :: 'x error + bool) = Inr True \<longrightarrow>
        ngens < 0 \<or> int (length xs) = ngens \<longrightarrow>
        normalize_names dvn str_of ngens (PyList xs) = Inr (map (\<lambda>x. strip (py_str str_of x)) xs)
        \<and> normalize_names dvn str_of ngens (PyTuple xs) = Inr (map (\<lambda>x. strip (py_str str_of x)) xs))
   \<and> (CHR '','' \<in> set s \<longrightarrow>
        (certify_names (map (\<lambda>w. PyStr (strip w)) (split_comma s)) :: 'x error + bool) = Inr True \<longrightarrow>
        ngens < 0 \<or> int (length (split_comma s)) = ngens \<longrightarrow>
        normalize_names dvn str_of ngens (PyStr s :: 'x pyval) = Inr (map strip (split_comma s)))
   \<and> (CHR '','' \<notin> set s \<longrightarrow> 1 < ngens \<longrightarrow> int (length s) = ngens \<longrightarrow>
        (certify_names (iter_str s) :: 'x error + bool) = Inr True \<longrightarrow>
        normalize_names dvn str_of ngens (PyStr s :: 'x pyval) = Inr (map (\<lambda>c. [c]) s))
   \<and> (CHR '','' \<notin> set p \<longrightarrow> (ngens \<le> 1 \<or> int (length p) \<noteq> ngens
          \<or> (certify_names (iter_str p) :: 'x error + bool) \<noteq> Inr True) \<longrightarrow> 0 \<le> ngens \<longrightarrow>
        (certify_names (map PyStr (dvn ngens p)) :: 'x error + bool) = Inr True \<longrightarrow>
        int (length (dvn ngens p)) = ngens \<longrightarrow>
        normalize_names dvn str_of ngens (PyStr p :: 'x pyval) = Inr (dvn ngens p))
   \<and> (CHR '','' \<notin> set p \<longrightarrow> (ngens \<le> 1 \<or> int (length p) \<noteq> ngens
          \<or> (certify_names (iter_str p) :: 'x error + bool) \<noteq> Inr True) \<longrightarrow> 0 \<le> ngens \<longrightarrow>
        (certify_names (map PyStr (dvn ngens p)) :: 'x error + bool) = Inr True \<longrightarrow>
        int (length (dvn ngens p)) \<noteq> ngens \<longrightarrow>
        normalize_names dvn str_of ngens (PyStr p :: 'x pyval) = Inl (IndexError CountMismatch))
   \<and> (CHR '','' \<notin> set p \<longrightarrow> (ngens \<le> 1 \<or> int (length p) \<noteq> ngens
          \<or> (certify_names (iter_str p) :: 'x error + bool) \<noteq> Inr True) \<longrightarrow> 0 \<le> ngens \<longrightarrow>
        (certify_names (map PyStr (dvn ngens p)) :: 'x error + bool) = Inl e \<longrightarrow>
        normalize_names dvn str_of ngens (PyStr p :: 'x pyval) = Inl e)
   \<and> (CHR '','' \<notin> set p \<longrightarrow> ngens < 0 \<longrightarrow>
        (certify_names [PyStr p] :: 'x error + bool) = Inr True \<longrightarrow>
        normalize_names dvn str_of ngens (PyStr p :: 'x pyval) = Inr [p])
   \<and> ((\<forall>ys. v \<noteq> PyList ys) \<longrightarrow> (\<forall>ys. v \<noteq> PyTuple ys) \<longrightarrow>
        normalize_names dvn str_of ngens (v :: 'x pyval)
          = normalize_names dvn str_of ngens (PyStr (py_str str_of v)))
   \<and> normalize_names dvn str_of 3 (PyStr ''x,y,z'' :: 'x pyval) = Inr [''x'', ''y'', ''z'']
   \<and> normalize_names dvn str_of 2 (PyStr ''ab'' :: 'x pyval) = Inr [''a'', ''b'']
   \<and> normalize_names dvn str_of (- 1) (PyStr ''a'' :: 'x pyval) = Inr [''a'']
   \<and> normalize_names dvn str_of 3 (PyList [PyStr ''x'', PyStr ''y''] :: 'x pyval)
       = Inl (IndexError CountMismatch)"
proof -
  have sound: "normalize_names dvn str_of ngens names = Inr t \<longrightarrow>
      (0 \<le> ngens \<longrightarrow> int (length t) = ngens) \<and> distinct t \<and>
      (\<forall>name \<in> set t. name \<noteq> [] \<and> isalpha (hd name) \<and>
         (\<forall>c \<in> set name. isalpha c \<or> isdigit c \<or> c = CHR ''_''))"
  proof
    assume r: "normalize_names dvn str_of ngens names = Inr t"
    have c: "(certify_names (map PyStr t) :: 'x error + bool) = Inr True"
      using r by (rule normalize_names_certified(1))
    have len: "0 \<le> ngens \<longrightarrow> int (length t) = ngens"
      using normalize_names_certified(2) [OF r] by simp
    have d: "distinct t" using c by (rule certify_names_strings_ok(1))
    have "\<forall>n \<in> set t. name_ok n" using c by (rule certify_names_strings_ok(2))
    then have "\<forall>name \<in> set t. name \<noteq> [] \<and> isalpha (hd name) \<and>
         (\<forall>c \<in> set name. isalpha c \<or> isdigit c \<or> c = CHR ''_'')"
      using name_ok_chars by blast
    with len d show "(0 \<le> ngens \<longrightarrow> int (length t) = ngens) \<and> distinct t \<and>
      (\<forall>name \<in> set t. name \<noteq> [] \<and> isalpha (hd name) \<and>
         (\<forall>c \<in> set name. isalpha c \<or> isdigit c \<or> c = CHR ''_''))" by blast
  qed
  have err: "normalize_names dvn str_of ngens names = Inl e \<longrightarrow>
        (\<exists>m. e = ValueError m) \<or> e = IndexError CountMismatch"
    using normalize_names_error [of dvn str_of ngens names e] by blast
  have cl: "0 \<le> ngens \<longrightarrow> int (length xs) \<noteq> ngens \<longrightarrow>
        (certify_names (map (\<lambda>x. PyStr (strip (py_str str_of x))) xs) :: 'x error + bool) = Inr True \<longrightarrow>
        normalize_names dvn str_of ngens (PyList xs) = Inl (IndexError CountMismatch)
        \<and> normalize_names dvn str_of ngens (PyTuple xs) = Inl (IndexError CountMismatch)"
    using normalize_names_count_list [of ngens str_of xs dvn] by blast
  have cc: "0 \<le> ngens \<longrightarrow> CHR '','' \<in> set s \<longrightarrow> int (length (split_comma s)) \<noteq> ngens \<longrightarrow>
        (certify_names (map (\<lambda>w. PyStr (strip w)) (split_comma s)) :: 'x error + bool) = Inr True \<longrightarrow>
        normalize_names dvn str_of ngens (PyStr s :: 'x pyval) = Inl (IndexError CountMismatch)"
    using normalize_names_count_commas [of ngens s dvn str_of] by blast
  have ol: "(certify_names (map (\<lambda>x. PyStr (strip (py_str str_of x))) xs) :: 'x error + bool) = Inr True \<longrightarrow>
        ngens < 0 \<or> int (length xs) = ngens \<longrightarrow>
        normalize_names dvn str_of ngens (PyList xs) = Inr (map (\<lambda>x. strip (py_str str_of x)) xs)
        \<and> normalize_names dvn str_of ngens (PyTuple xs) = Inr (map (\<lambda>x. strip (py_str str_of x)) xs)"
    using normalize_names_list_ok [of str_of xs ngens dvn] by blast
  have oc: "CHR '','' \<in> set s \<longrightarrow>
        (certify_names (map (\<lambda>w. PyStr (strip w)) (split_comma s)) :: 'x error + bool) = Inr True \<longrightarrow>
        ngens < 0 \<or> int (length (split_comma s)) = ngens \<longrightarrow>
        normalize_names dvn str_of ngens (PyStr s :: 'x pyval) = Inr (map strip (split_comma s))"
    using normalize_names_commas_ok [of s ngens dvn str_of] by blast
  have os: "CHR '','' \<notin> set s \<longrightarrow> 1 < ngens \<longrightarrow> int (length s) = ngens \<longrightarrow>
        (certify_names (iter_str s) :: 'x error + bool) = Inr True \<longrightarrow>
        normalize_names dvn str_of ngens (PyStr s :: 'x pyval) = Inr (map (\<lambda>c. [c]) s)"
    using normalize_names_chars_ok [of s ngens dvn str_of] by blast
  have po: "CHR '','' \<notin> set p \<longrightarrow> (ngens \<le> 1 \<or> int (length p) \<noteq> ngens
          \<or> (certify_names (iter_str p) :: 'x error + bool) \<noteq> Inr True) \<longrightarrow> 0 \<le> ngens \<longrightarrow>
        (certify_names (map PyStr (dvn ngens p)) :: 'x error + bool) = Inr True \<longrightarrow>
        int (length (dvn ngens p)) = ngens \<longrightarrow>
        normalize_names dvn str_of ngens (PyStr p :: 'x pyval) = Inr (dvn ngens p)"
    using normalize_names_prefix_ok [of p ngens dvn str_of] by blast
  have pc: "CHR '','' \<notin> set p \<longrightarrow> (ngens \<le> 1 \<or> int (length p) \<noteq> ngens
          \<or> (certify_names (iter_str p) :: 'x error + bool) \<noteq> Inr True) \<longrightarrow> 0 \<le> ngens \<longrightarrow>
        (certify_names (map PyStr (dvn ngens p)) :: 'x error + bool) = Inr True \<longrightarrow>
        int (length (dvn ngens p)) \<noteq> ngens \<longrightarrow>
        normalize_names dvn str_of ngens (PyStr p :: 'x pyval) = Inl (IndexError CountMismatch)"
    using normalize_names_prefix_count [of p ngens dvn str_of] by blast
  have pi: "CHR '','' \<notin> set p \<longrightarrow> (ngens \<le> 1 \<or> int (length p) \<noteq> ngens
          \<or> (certify_names (iter_str p) :: 'x error + bool) \<noteq> Inr True) \<longrightarrow> 0 \<le> ngens \<longrightarrow>
        (certify_names (map PyStr (dvn ngens p)) :: 'x error + bool) = Inl e \<longrightarrow>
        normalize_names dvn str_of ngens (PyStr p :: 'x pyval) = Inl e"
    using normalize_names_prefix_invalid [of p ngens dvn e str_of] by blast
  have pu: "CHR '','' \<notin> set p \<longrightarrow> ngens < 0 \<longrightarrow>
        (certify_names [PyStr p] :: 'x error + bool) = Inr True \<longrightarrow>
        normalize_names dvn str_of ngens (PyStr p :: 'x pyval) = Inr [p]"
    using normalize_names_single_unknown [of p ngens dvn str_of] by blast
  have ds: "(\<forall>ys. v \<noteq> PyList ys) \<longrightarrow> (\<forall>ys. v \<noteq> PyTuple ys) \<longrightarrow>
        normalize_names dvn str_of ngens (v :: 'x pyval)
          = normalize_names dvn str_of ngens (PyStr (py_str str_of v))"
    using normalize_names_display_string [of v dvn str_of ngens] by blast
  note ex = normalize_names_examples [of dvn str_of]
  show ?thesis
    by (intro conjI) (rule sound err cl cc ol oc os po pc pi pu ds ex)+
qed


theorem normalize_names_valid_witness:
  "normalize_names (\<lambda>n s. [s]) (\<lambda>v. ''?'') 3 (PyStr ''x, y, z'' :: nat pyval) = Inr [''x'', ''y'', ''z'']
   \<and> int (length [''x'', ''y'', ''z'']) = 3
   \<and> distinct [''x'', ''y'', ''z'']
   \<and> isalpha (hd ''x'')
   \<and> normalize_names (\<lambda>n s. [s]) (\<lambda>v. ''?'') 1 (PyStr ''foo@'' :: nat pyval)
       = Inl (ValueError (NameNotAlnum ''foo@''))
   \<and> normalize_names (\<lambda>n s. [s]) (\<lambda>v. ''?'') 3 (PyTuple [PyStr ''x'', PyStr '' y ''] :: nat pyval)
       = Inl (IndexError CountMismatch)
   \<and> normalize_names (\<lambda>n s. [s]) (\<lambda>v. ''?'') 3 (PyStr ''x,y'' :: nat pyval)
       = Inl (IndexError CountMismatch)
   \<and> normalize_names (\<lambda>n s. [s @ ''0'', s @ ''1'']) (\<lambda>v. ''?'') 2 (PyStr ''z_z'' :: nat pyval)
       = Inr [''z_z0'', ''z_z1'']
   \<and> normalize_names (\<lambda>n s. [s @ ''0'', s @ ''1'']) (\<lambda>v. ''?'') 2 (PyStr ''x0'' :: nat pyval)
       = Inr [''x00'', ''x01'']
   \<and> normalize_names (\<lambda>n s. [s @ ''0'', s @ ''1'']) (\<lambda>v. ''?'') 3 (PyStr ''y'' :: nat pyval)
       = Inl (IndexError CountMismatch)
   \<and> normalize_names (\<lambda>n s. [s]) (\<lambda>v. ''?'') 1 (PyStr ''a'' :: nat pyval) = Inr [''a'']"
proof -
  let ?D = "\<lambda>(n :: int) (s :: string). [s]"
  let ?S = "\<lambda>v :: nat pyval. ''?''"
  let ?xs = "[PyStr ''x'', PyStr '' y ''] :: nat pyval list"
  note T = normalize_names_valid [where dvn = ?D and str_of = ?S and ngens = 3
      and names = "PyStr ''x, y, z''" and t = "[''x'', ''y'', ''z'']" and xs = ?xs
      and s = "''x,y''" and e = "ValueError NameEmpty" and p = "''a''" and v = PyNone]
  have r: "normalize_names ?D ?S 3 (PyStr ''x, y, z'' :: nat pyval) = Inr [''x'', ''y'', ''z'']"
    by (simp add: eval_names)
  have 1: "int (length [''x'', ''y'', ''z'']) = 3 \<and> distinct [''x'', ''y'', ''z'']
      \<and> isalpha (hd ''x'')"
    using T r by auto
  have bad: "normalize_names ?D ?S 1 (PyStr ''foo@'' :: nat pyval)
       = Inl (ValueError (NameNotAlnum ''foo@''))"
    by (simp add: eval_names)
  have pos: "(0 :: int) \<le> 3" by simp
  have cert_xs: "(certify_names (map (\<lambda>x. PyStr (strip (py_str ?S x))) ?xs) :: nat error + bool)
      = Inr True"
    by (simp add: eval_names)
  have len_xs: "int (length ?xs) \<noteq> 3" by simp
  have 2: "normalize_names ?D ?S 3 (PyTuple ?xs) = Inl (IndexError CountMismatch)"
    using T pos cert_xs len_xs by blast
  have comma: "CHR '','' \<in> set ''x,y''" by simp
  have cert_s: "(certify_names (map (\<lambda>w. PyStr (strip w)) (split_comma ''x,y'')) :: nat error + bool)
      = Inr True"
    by (simp add: eval_names)
  have len_s: "int (length (split_comma ''x,y'')) \<noteq> 3" by simp
  have 3: "normalize_names ?D ?S 3 (PyStr ''x,y'' :: nat pyval) = Inl (IndexError CountMismatch)"
    using T pos comma cert_s len_s by blast
  let ?E = "\<lambda>(n :: int) (s :: string). [s @ ''0'', s @ ''1'']"
  note P = normalize_names_valid [where dvn = ?E and str_of = ?S
      and names = "PyStr ''x, y, z''" and t = "[''x'', ''y'', ''z'']" and xs = ?xs
      and s = "''x,y''" and e = "ValueError NameEmpty" and v = PyNone]
  have two: "(0 :: int) \<le> 2" by simp
  have no_comma: "CHR '','' \<notin> set ''z_z''" "CHR '','' \<notin> set ''x0''"
    "CHR '','' \<notin> set ''y''" "CHR '','' \<notin> set ''a''"
    by simp_all
  have not_run_z: "(2 :: int) \<le> 1 \<or> int (length ''z_z'') \<noteq> 2
      \<or> (certify_names (iter_str ''z_z'') :: nat error + bool) \<noteq> Inr True"
    by simp
  have cert_z: "(certify_names (map PyStr (?E 2 ''z_z'')) :: nat error + bool) = Inr True"
    by (simp add: eval_names)
  have len_z: "int (length (?E 2 ''z_z'')) = 2" by simp
  have 4: "normalize_names ?E ?S 2 (PyStr ''z_z'' :: nat pyval) = Inr (?E 2 ''z_z'')"
    using P [where ngens = 2 and p = "''z_z''"] no_comma(1) not_run_z two cert_z len_z
    by blast
  have not_run_x: "(2 :: int) \<le> 1 \<or> int (length ''x0'') \<noteq> 2
      \<or> (certify_names (iter_str ''x0'') :: nat error + bool) \<noteq> Inr True"
    by (simp add: eval_names)
  have cert_x: "(certify_names (map PyStr (?E 2 ''x0'')) :: nat error + bool) = Inr True"
    by (simp add: eval_names)
  have len_x: "int (length (?E 2 ''x0'')) = 2" by simp
  have 5: "normalize_names ?E ?S 2 (PyStr ''x0'' :: nat pyval) = Inr (?E 2 ''x0'')"
    using P [where ngens = 2 and p = "''x0''"] no_comma(2) not_run_x two cert_x len_x
    by blast
  have not_run_y: "(3 :: int) \<le> 1 \<or> int (length ''y'') \<noteq> 3
      \<or> (certify_names (iter_str ''y'') :: nat error + bool) \<noteq> Inr True"
    by simp
  have cert_y: "(certify_names (map PyStr (?E 3 ''y'')) :: nat error + bool) = Inr True"
    by (simp add: eval_names)
  have len_y: "int (length (?E 3 ''y'')) \<noteq> 3" by simp
  have 6: "normalize_names ?E ?S 3 (PyStr ''y'' :: nat pyval) = Inl (IndexError CountMismatch)"
    using P [where ngens = 3 and p = "''y''"] no_comma(3) not_run_y pos cert_y len_y
    by blast
  have one: "(0 :: int) \<le> 1" by simp
  have not_run_a: "(1 :: int) \<le> 1 \<or> int (length ''a'') \<noteq> 1
      \<or> (certify_names (iter_str ''a'') :: nat error + bool) \<noteq> Inr True"
    by simp
  have cert_a: "(certify_names (map PyStr (?D 1 ''a'')) :: nat error + bool) = Inr True"
    by (simp add: eval_names)
  have len_a: "int (length (?D 1 ''a'')) = 1" by simp
  have 7: "normalize_names ?D ?S 1 (PyStr ''a'' :: nat pyval) = Inr (?D 1 ''a'')"
    using normalize_names_valid [where dvn = ?D and str_of = ?S and ngens = 1
      and names = "PyStr ''x, y, z''" and t = "[''x'', ''y'', ''z'']" and xs = ?xs
      and s = "''x,y''" and e = "ValueError NameEmpty" and v = PyNone and p = "''a''"]
      no_comma(4) not_run_a one cert_a len_a
    by blast
  show ?thesis using r 1 bad 2 3 4 5 6 7 by simp
qed

section \<open>Assignment of names\<close>

lemma assign_names_None: "assign_names dvn str_of self PyNone nrm ngens = (Inr (), self)"
  by (simp add: assign_names_def)

lemma assign_names_normalized:
  "names \<noteq> PyNone \<Longrightarrow>
   assign_names dvn str_of self names True ngens =
     (case normalize_names dvn str_of (case ngens of None \<Rightarrow> - 1 | Some n \<Rightarrow> n) names of
        Inl e \<Rightarrow> (Inl e, self)
      | Inr ns \<Rightarrow>
          if names_attr self \<noteq> PyNone \<and> PyTuple (map PyStr ns) \<noteq> names_attr self
          then (Inl (ValueError NamesChanged), self)
          else (Inr (), self\<lparr>names_attr := PyTuple (map PyStr ns)\<rparr>))"
  by (cases "normalize_names dvn str_of (case ngens of None \<Rightarrow> - 1 | Some n \<Rightarrow> n) names")
    (auto simp: assign_names_def split: pyval.splits)

lemma assign_names_raw:
  "names \<noteq> PyNone \<Longrightarrow>
   assign_names dvn str_of self names False ngens =
     (if names_attr self \<noteq> PyNone \<and> names \<noteq> names_attr self
      then (Inl (ValueError NamesChanged), self)
      else
        (case names of
           PyStr s \<Rightarrow> (Inr (), self\<lparr>names_attr := PyTuple [PyStr s]\<rparr>)
         | PyList l \<Rightarrow> (Inr (), self\<lparr>names_attr := PyTuple l\<rparr>)
         | PyTuple l \<Rightarrow> (Inr (), self\<lparr>names_attr := PyTuple l\<rparr>)
         | _ \<Rightarrow> (Inl (TypeError NamesNotTuple), self)))"
  by (simp add: assign_names_def)

lemma assign_names_frame:
  assumes "names_attr self = PyTuple t"
  shows "snd (assign_names dvn str_of self names nrm ngens) = self"
proof (cases "names = PyNone")
  case True
  then show ?thesis by (simp add: assign_names_None)
next
  case False
  show ?thesis
  proof (cases nrm)
    case True
    with False assms show ?thesis
      by (auto simp: assign_names_normalized split: sum.splits)
  next
    case nrm: False
    with False assms show ?thesis
      by (cases names) (auto simp: assign_names_raw)
  qed
qed

lemma normalize_names_candidates:
  obtains l where
    "normalize_names dvn str_of ngens (names :: 'x pyval) =
       (case (certify_names (map PyStr l) :: 'x error + bool) of
          Inl e \<Rightarrow> Inl e
        | Inr _ \<Rightarrow>
            if ngens \<ge> 0 \<and> int (length l) \<noteq> ngens then Inl (IndexError CountMismatch)
            else Inr l)"
proof -
  have "\<exists>l. (case names of
              PyList xs \<Rightarrow> Inr (map (\<lambda>x. strip (py_str str_of x)) xs)
            | PyTuple xs \<Rightarrow> Inr (map (\<lambda>x. strip (py_str str_of x)) xs)
            | _ \<Rightarrow> (names_of_string dvn ngens (py_str str_of names) :: 'x error + string list))
          = Inr l"
    using names_of_string_total [of dvn ngens "py_str str_of names"]
    by (cases names) auto
  then obtain l where "(case names of
              PyList xs \<Rightarrow> Inr (map (\<lambda>x. strip (py_str str_of x)) xs)
            | PyTuple xs \<Rightarrow> Inr (map (\<lambda>x. strip (py_str str_of x)) xs)
            | _ \<Rightarrow> (names_of_string dvn ngens (py_str str_of names) :: 'x error + string list))
          = Inr l" by blast
  then have "normalize_names dvn str_of ngens names =
       (case (certify_names (map PyStr l) :: 'x error + bool) of
          Inl e \<Rightarrow> Inl e
        | Inr _ \<Rightarrow>
            if ngens \<ge> 0 \<and> int (length l) \<noteq> ngens then Inl (IndexError CountMismatch)
            else Inr l)"
    unfolding normalize_names_def by simp
  then show ?thesis by (rule that)
qed

lemma normalize_names_unknown_count_error:
  assumes "normalize_names dvn str_of ngens (names :: 'x pyval) = Inl e" and "ngens < 0"
  shows "\<exists>m. e = ValueError m"
proof -
  obtain l where nn: "normalize_names dvn str_of ngens names =
       (case (certify_names (map PyStr l) :: 'x error + bool) of
          Inl e \<Rightarrow> Inl e
        | Inr _ \<Rightarrow>
            if ngens \<ge> 0 \<and> int (length l) \<noteq> ngens then Inl (IndexError CountMismatch)
            else Inr l)"
    by (rule normalize_names_candidates)
  show ?thesis
  proof (cases "certify_names (map PyStr l) :: 'x error + bool")
    case (Inl e')
    with nn assms(1) have "e = e'" by simp
    with Inl certify_names_strings_error [of l e'] show ?thesis by simp
  next
    case (Inr b)
    with nn assms show ?thesis by simp
  qed
qed


lemma assign_names_twice:
  assumes "assign_names dvn str_of self0 names True ngens = (Inr (), self1)"
  shows "assign_names dvn str_of self1 names True ngens = (Inr (), self1)"
proof (cases "names = PyNone")
  case True
  with assms show ?thesis by (simp add: assign_names_None)
next
  case False
  let ?n = "case ngens of None \<Rightarrow> - 1 | Some n \<Rightarrow> n"
  show ?thesis
  proof (cases "normalize_names dvn str_of ?n names")
    case (Inl e)
    with assms False show ?thesis by (simp add: assign_names_normalized)
  next
    case (Inr ns)
    with assms False have "self1 = self0\<lparr>names_attr := PyTuple (map PyStr ns)\<rparr>"
      by (simp add: assign_names_normalized split: if_splits)
    then have "names_attr self1 = PyTuple (map PyStr ns)"
      and "self1\<lparr>names_attr := PyTuple (map PyStr ns)\<rparr> = self1"
      by simp_all
    with Inr False show ?thesis by (simp add: assign_names_normalized)
  qed
qed

text \<open>
  C7: let the names of an object be set, to the tuple \<open>t\<close>, and let \<open>_assign_names\<close> be
  called with names other than \<open>None\<close> (with \<open>None\<close> the call does nothing). With
  normalisation, the default: if the normalised names equal \<open>t\<close> the call succeeds and
  leaves the object as it was; if they differ it raises the \<open>ValueError\<close> that names
  cannot be changed; if normalisation itself raises, that error comes out, a
  \<open>ValueError\<close> when no count is given. Without normalisation the given value is compared
  as it is: the tuple \<open>t\<close> is accepted, anything else is refused with the same
  \<open>ValueError\<close>. In every case, whatever the arguments, the object after the call is the
  object before it, so names that are set never change through \<open>_assign_names\<close>. And a
  call that succeeded can be repeated with the same arguments: it succeeds again and
  changes nothing. Names that passed the name checks, as a normalising assignment stores
  them, can be assigned again as the very tuple that is stored.
\<close>

theorem assign_names_write_once:
  "(names_attr self = PyTuple t \<longrightarrow> (names :: 'x pyval) \<noteq> PyNone \<longrightarrow>
      normalize_names dvn str_of (case ngens of None \<Rightarrow> - 1 | Some n \<Rightarrow> n) names = Inr ns \<longrightarrow>
      map PyStr ns = t \<longrightarrow>
      assign_names dvn str_of self names True ngens = (Inr (), self))
   \<and> (names_attr self = PyTuple t \<longrightarrow> names \<noteq> PyNone \<longrightarrow>
      normalize_names dvn str_of (case ngens of None \<Rightarrow> - 1 | Some n \<Rightarrow> n) names = Inr ns \<longrightarrow>
      map PyStr ns \<noteq> t \<longrightarrow>
      assign_names dvn str_of self names True ngens = (Inl (ValueError NamesChanged), self))
   \<and> (names_attr self = PyTuple t \<longrightarrow> names \<noteq> PyNone \<longrightarrow>
      normalize_names dvn str_of (case ngens of None \<Rightarrow> - 1 | Some n \<Rightarrow> n) names = Inl e \<longrightarrow>
      assign_names dvn str_of self names True ngens = (Inl e, self)
      \<and> ((\<exists>m. e = ValueError m) \<or> e = IndexError CountMismatch)
      \<and> (ngens = None \<longrightarrow> (\<exists>m. e = ValueError m)))
   \<and> (names_attr self = PyTuple t \<longrightarrow> names = PyTuple t \<longrightarrow>
      assign_names dvn str_of self names False ngens = (Inr (), self))
   \<and> (names_attr self = PyTuple t \<longrightarrow> names \<noteq> PyNone \<longrightarrow> names \<noteq> PyTuple t \<longrightarrow>
      assign_names dvn str_of self names False ngens = (Inl (ValueError NamesChanged), self))
   \<and> (names_attr self = PyTuple t \<longrightarrow>
      snd (assign_names dvn str_of self names nrm ngens) = self)
   \<and> (assign_names dvn str_of before names True ngens = (Inr (), after) \<longrightarrow>
      assign_names dvn str_of after names True ngens = (Inr (), after))
   \<and> (names_attr self = PyTuple (map PyStr ns) \<longrightarrow>
      (certify_names (map PyStr ns) :: 'x error + bool) = Inr True \<longrightarrow>
      assign_names dvn str_of self (PyTuple (map PyStr ns)) True None = (Inr (), self))"
proof -
  let ?n = "case ngens of None \<Rightarrow> - 1 | Some n \<Rightarrow> n"
  have same: "names_attr self = PyTuple t \<longrightarrow> names \<noteq> PyNone \<longrightarrow>
      normalize_names dvn str_of ?n names = Inr ns \<longrightarrow> map PyStr ns = t \<longrightarrow>
      assign_names dvn str_of self names True ngens = (Inr (), self)"
    by (auto simp: assign_names_normalized)
  have differ: "names_attr self = PyTuple t \<longrightarrow> names \<noteq> PyNone \<longrightarrow>
      normalize_names dvn str_of ?n names = Inr ns \<longrightarrow> map PyStr ns \<noteq> t \<longrightarrow>
      assign_names dvn str_of self names True ngens = (Inl (ValueError NamesChanged), self)"
    by (simp add: assign_names_normalized)
  have invalid: "names_attr self = PyTuple t \<longrightarrow> names \<noteq> PyNone \<longrightarrow>
      normalize_names dvn str_of ?n names = Inl e \<longrightarrow>
      assign_names dvn str_of self names True ngens = (Inl e, self)
      \<and> ((\<exists>m. e = ValueError m) \<or> e = IndexError CountMismatch)
      \<and> (ngens = None \<longrightarrow> (\<exists>m. e = ValueError m))"
  proof (intro impI)
    assume ne: "names \<noteq> PyNone" and r: "normalize_names dvn str_of ?n names = Inl e"
    have 1: "assign_names dvn str_of self names True ngens = (Inl e, self)"
      using ne r by (simp add: assign_names_normalized)
    have 2: "(\<exists>m. e = ValueError m) \<or> e = IndexError CountMismatch"
      using r by (rule normalize_names_error)
    have 3: "ngens = None \<longrightarrow> (\<exists>m. e = ValueError m)"
    proof
      assume "ngens = None"
      with r have "normalize_names dvn str_of (- 1) names = Inl e" by simp
      then show "\<exists>m. e = ValueError m"
        by (rule normalize_names_unknown_count_error) simp
    qed
    from 1 2 3 show "assign_names dvn str_of self names True ngens = (Inl e, self)
      \<and> ((\<exists>m. e = ValueError m) \<or> e = IndexError CountMismatch)
      \<and> (ngens = None \<longrightarrow> (\<exists>m. e = ValueError m))" by blast
  qed
  have raw_same: "names_attr self = PyTuple t \<longrightarrow> names = PyTuple t \<longrightarrow>
      assign_names dvn str_of self names False ngens = (Inr (), self)"
    by (auto simp: assign_names_raw)
  have raw_differ: "names_attr self = PyTuple t \<longrightarrow> names \<noteq> PyNone \<longrightarrow> names \<noteq> PyTuple t \<longrightarrow>
      assign_names dvn str_of self names False ngens = (Inl (ValueError NamesChanged), self)"
    by (simp add: assign_names_raw)
  have frame: "names_attr self = PyTuple t \<longrightarrow>
      snd (assign_names dvn str_of self names nrm ngens) = self"
    using assign_names_frame [of self t dvn str_of names nrm ngens] by blast
  have twice: "assign_names dvn str_of before names True ngens = (Inr (), after) \<longrightarrow>
      assign_names dvn str_of after names True ngens = (Inr (), after)"
    using assign_names_twice [of dvn str_of before names ngens after] by blast
  have stored: "names_attr self = PyTuple (map PyStr ns) \<longrightarrow>
      (certify_names (map PyStr ns) :: 'x error + bool) = Inr True \<longrightarrow>
      assign_names dvn str_of self (PyTuple (map PyStr ns)) True None = (Inr (), self)"
  proof (intro impI)
    assume n: "names_attr self = PyTuple (map PyStr ns)"
      and c: "(certify_names (map PyStr ns) :: 'x error + bool) = Inr True"
    have "normalize_names dvn str_of (- 1) (PyTuple (map PyStr ns) :: 'x pyval) = Inr ns"
      using c by (rule normalize_names_idempotent) simp
    with n show "assign_names dvn str_of self (PyTuple (map PyStr ns)) True None = (Inr (), self)"
      by (simp add: assign_names_normalized)
  qed
  from same differ invalid raw_same raw_differ frame twice stored show ?thesis
    by (intro conjI) blast+
qed


theorem assign_names_write_once_witness:
  "assign_names (\<lambda>n s. [s]) (\<lambda>v. ''?'')
      ((cinit True :: (nat, nat, nat, nat) CategoryObject)\<lparr>names_attr := PyTuple [PyStr ''x'', PyStr ''y'']\<rparr>)
      (PyStr ''x,y'') True None
     = (Inr (), (cinit True)\<lparr>names_attr := PyTuple [PyStr ''x'', PyStr ''y'']\<rparr>)
   \<and> assign_names (\<lambda>n s. [s]) (\<lambda>v. ''?'')
      ((cinit True :: (nat, nat, nat, nat) CategoryObject)\<lparr>names_attr := PyTuple [PyStr ''x'', PyStr ''y'']\<rparr>)
      (PyStr ''a,b'') True None
     = (Inl (ValueError NamesChanged), (cinit True)\<lparr>names_attr := PyTuple [PyStr ''x'', PyStr ''y'']\<rparr>)
   \<and> assign_names (\<lambda>n s. [s]) (\<lambda>v. ''?'')
      ((cinit True :: (nat, nat, nat, nat) CategoryObject)\<lparr>names_attr := PyTuple [PyStr ''x'', PyStr ''y'']\<rparr>)
      (PyStr ''1x'') True None
     = (Inl (ValueError (NameNoLetter ''1x'')), (cinit True)\<lparr>names_attr := PyTuple [PyStr ''x'', PyStr ''y'']\<rparr>)
   \<and> assign_names (\<lambda>n s. [s]) (\<lambda>v. ''?'')
      ((cinit True :: (nat, nat, nat, nat) CategoryObject)\<lparr>names_attr := PyTuple [PyStr ''x'', PyStr ''y'']\<rparr>)
      (PyTuple [PyStr ''x'', PyStr ''y'']) False None
     = (Inr (), (cinit True)\<lparr>names_attr := PyTuple [PyStr ''x'', PyStr ''y'']\<rparr>)
   \<and> assign_names (\<lambda>n s. [s]) (\<lambda>v. ''?'')
      ((cinit True :: (nat, nat, nat, nat) CategoryObject)\<lparr>names_attr := PyTuple [PyStr ''x'', PyStr ''y'']\<rparr>)
      (PyList [PyStr ''x'', PyStr ''y'']) False None
     = (Inl (ValueError NamesChanged), (cinit True)\<lparr>names_attr := PyTuple [PyStr ''x'', PyStr ''y'']\<rparr>)
   \<and> snd (assign_names (\<lambda>n s. [s]) (\<lambda>v. ''?'')
      ((cinit True :: (nat, nat, nat, nat) CategoryObject)\<lparr>names_attr := PyTuple [PyStr ''x'', PyStr ''y'']\<rparr>)
      (PyStr ''z'') True (Some 1))
     = (cinit True)\<lparr>names_attr := PyTuple [PyStr ''x'', PyStr ''y'']\<rparr>"
proof -
  let ?D = "\<lambda>(n :: int) (s :: string). [s]"
  let ?S = "\<lambda>v :: nat pyval. ''?''"
  let ?t = "[PyStr ''x'', PyStr ''y''] :: nat pyval list"
  let ?o = "(cinit True :: (nat, nat, nat, nat) CategoryObject)\<lparr>names_attr := PyTuple ?t\<rparr>"
  note T = assign_names_write_once [where self = ?o and t = ?t and dvn = ?D and str_of = ?S
      and nrm = True and before = ?o and after = ?o]
  have named: "names_attr ?o = PyTuple ?t" by simp
  have n1: "normalize_names ?D ?S (case None of None \<Rightarrow> - 1 | Some n \<Rightarrow> n) (PyStr ''x,y'' :: nat pyval)
      = Inr [''x'', ''y'']"
    by (simp add: eval_names)
  have n2: "normalize_names ?D ?S (case None of None \<Rightarrow> - 1 | Some n \<Rightarrow> n) (PyStr ''a,b'' :: nat pyval)
      = Inr [''a'', ''b'']"
    by (simp add: eval_names)
  have n3: "normalize_names ?D ?S (case None of None \<Rightarrow> - 1 | Some n \<Rightarrow> n) (PyStr ''1x'' :: nat pyval)
      = Inl (ValueError (NameNoLetter ''1x''))"
    by (simp add: eval_names)
  have 1: "assign_names ?D ?S ?o (PyStr ''x,y'') True None = (Inr (), ?o)"
    using T [where names = "PyStr ''x,y''"
        and ngens = None and ns = "[''x'', ''y'']" and e = "ValueError NameEmpty"] named n1
    by simp
  have 2: "assign_names ?D ?S ?o (PyStr ''a,b'') True None = (Inl (ValueError NamesChanged), ?o)"
    using T [where names = "PyStr ''a,b''"
        and ngens = None and ns = "[''a'', ''b'']" and e = "ValueError NameEmpty"] named n2
    by simp
  have 3: "assign_names ?D ?S ?o (PyStr ''1x'') True None
      = (Inl (ValueError (NameNoLetter ''1x'')), ?o)"
    using T [where names = "PyStr ''1x''"
        and ngens = None and ns = "[]" and e = "ValueError (NameNoLetter ''1x'')"] named n3
    by simp
  have 4: "assign_names ?D ?S ?o (PyTuple ?t) False None = (Inr (), ?o)"
    using T [where names = "PyTuple ?t"
        and ngens = None and ns = "[]" and e = "ValueError NameEmpty"] named
    by simp
  have 5: "assign_names ?D ?S ?o (PyList ?t) False None = (Inl (ValueError NamesChanged), ?o)"
    using T [where names = "PyList ?t"
        and ngens = None and ns = "[]" and e = "ValueError NameEmpty"] named
    by simp
  have 6: "snd (assign_names ?D ?S ?o (PyStr ''z'') True (Some 1)) = ?o"
    using T [where names = "PyStr ''z''"
        and ngens = "Some 1" and ns = "[]" and e = "ValueError NameEmpty"] named
    by simp
  show ?thesis using 1 2 3 4 5 6 by blast
qed

section \<open>Reading the names of an object\<close>

lemma variable_names_cases:
  "variable_names self =
     (if names_attr self = PyNone then Inl (ValueError NamesNotSet) else Inr (names_attr self))"
  by (simp add: variable_names_def)

lemma names_attr_init_category [simp]: "names_attr (init_category join self c) = names_attr self"
  by (cases c) (simp_all add: init_category_def)

lemma names_attr_init [simp]: "names_attr (init join self cat b) = names_attr self"
  by (simp add: init_def Let_def split: option.splits)

lemma names_attr_cinit [simp]: "names_attr (cinit has_dict) = PyNone"
  by (simp add: cinit_def)

text \<open>The conversion at the end of \<open>_assign_names\<close> stores a tuple, whatever was given.\<close>

lemma assign_names_stores_tuple:
  assumes "assign_names dvn str_of self names nrm ngens = (Inr (), self')"
    and "names \<noteq> PyNone"
  shows "\<exists>t. names_attr self' = PyTuple t"
proof -
  define r :: "'a error + 'a pyval" where
    "r = (if nrm then
            (case normalize_names dvn str_of (case ngens of None \<Rightarrow> - 1 | Some n \<Rightarrow> n) names of
               Inl e \<Rightarrow> Inl e
             | Inr t \<Rightarrow> Inr (PyTuple (map PyStr t)))
          else Inr names)"
  have eq: "(case r of
           Inl e \<Rightarrow> (Inl e, self)
         | Inr names' \<Rightarrow>
             if names_attr self \<noteq> PyNone \<and> names' \<noteq> names_attr self
             then (Inl (ValueError NamesChanged), self)
             else
               (case names' of
                  PyStr s \<Rightarrow> (Inr (), self\<lparr>names_attr := PyTuple [PyStr s]\<rparr>)
                | PyList l \<Rightarrow> (Inr (), self\<lparr>names_attr := PyTuple l\<rparr>)
                | PyTuple l \<Rightarrow> (Inr (), self\<lparr>names_attr := PyTuple l\<rparr>)
                | _ \<Rightarrow> (Inl (TypeError NamesNotTuple), self))) = (Inr (), self')"
    using assms unfolding assign_names_def r_def by simp
  show ?thesis
  proof (cases r)
    case (Inl e)
    with eq show ?thesis by simp
  next
    case (Inr n')
    with eq show ?thesis
      by (cases n') (auto split: if_splits, metis)
  qed
qed

text \<open>The specification \<open>"x,y"\<close>, evaluated.\<close>

lemma normalize_names_x_y:
  "normalize_names (\<lambda>n s. [s]) (\<lambda>v. ''?'') (- 1) (PyStr ''x,y'' :: nat pyval) = Inr [''x'', ''y'']"
  by (simp add: normalize_names_def names_of_string_def py_str_def certify_names_def
      certify_loop_PyStr str_isalnum_def replace_underscore_def isalpha_def isdigit_def strip_def isspace_def)

lemma assign_names_x_y:
  "assign_names (\<lambda>n s. [s]) (\<lambda>v. ''?'') (cinit True :: (nat, nat, nat, nat) CategoryObject)
     (PyStr ''x,y'') True None
   = (Inr (), (cinit True)\<lparr>names_attr := PyTuple [PyStr ''x'', PyStr ''y'']\<rparr>)"
  by (simp add: assign_names_def normalize_names_x_y)

text \<open>
  C8: \<open>variable_names()\<close> raises exactly when the names are unset, and the error is the
  \<open>ValueError\<close> that says the names have not been set (the state error of the
  specification); otherwise it returns the stored names. A fresh object, initialised with
  any category and base, has no names, so the call fails on it; after an assignment of
  names that succeeded with a specification other than \<open>None\<close>, the call returns the
  tuple that was assigned.
\<close>

theorem variable_names_unset_iff:
  "((\<exists>e. variable_names self = Inl e) \<longleftrightarrow> names_attr self = PyNone)
   \<and> (names_attr self = PyNone \<longrightarrow> variable_names self = Inl (ValueError NamesNotSet))
   \<and> (names_attr self \<noteq> PyNone \<longrightarrow> variable_names self = Inr (names_attr self))
   \<and> variable_names (init join (cinit has_dict) cat b) = Inl (ValueError NamesNotSet)
   \<and> (names \<noteq> PyNone \<longrightarrow> assign_names dvn str_of self names nrm ngens = (Inr (), self')
        \<longrightarrow> (\<exists>t. names_attr self' = PyTuple t \<and> variable_names self' = Inr (PyTuple t)))"
proof -
  have "names \<noteq> PyNone \<longrightarrow> assign_names dvn str_of self names nrm ngens = (Inr (), self')
        \<longrightarrow> (\<exists>t. names_attr self' = PyTuple t \<and> variable_names self' = Inr (PyTuple t))"
    using assign_names_stores_tuple [of dvn str_of self names nrm ngens self']
    by (auto simp: variable_names_cases)
  then show ?thesis
    by (simp add: variable_names_cases)
qed

theorem variable_names_unset_iff_witness:
  "variable_names (cinit True :: (nat, nat, nat, nat) CategoryObject) = Inl (ValueError NamesNotSet)
   \<and> variable_names (snd (assign_names (\<lambda>n s. [s]) (\<lambda>v. ''?'')
         (cinit True :: (nat, nat, nat, nat) CategoryObject) (PyStr ''x,y'') True None))
       = Inr (PyTuple [PyStr ''x'', PyStr ''y''])"
proof -
  let ?o = "cinit True :: (nat, nat, nat, nat) CategoryObject"
  let ?o' = "?o\<lparr>names_attr := PyTuple [PyStr ''x'', PyStr ''y'']\<rparr>"
  note T = variable_names_unset_iff [where self = ?o and self' = ?o'
       and names = "PyStr ''x,y''" and dvn = "\<lambda>n s. [s]" and str_of = "\<lambda>v. ''?''"
       and nrm = True and ngens = None and join = "\<lambda>cs. 0" and has_dict = True
       and cat = None and b = None]
  have unset: "names_attr ?o = PyNone" by simp
  have given: "PyStr ''x,y'' \<noteq> (PyNone :: nat pyval)" by simp
  have 1: "variable_names ?o = Inl (ValueError NamesNotSet)"
    using T unset by blast
  have "\<exists>t. names_attr ?o' = PyTuple t \<and> variable_names ?o' = Inr (PyTuple t)"
    using T given assign_names_x_y by blast
  then have 2: "variable_names ?o' = Inr (PyTuple [PyStr ''x'', PyStr ''y''])"
    by simp
  show ?thesis using 1 2 by (simp add: assign_names_x_y)
qed

section \<open>Refinement of the category\<close>

lemma refine_category_update:
  "refine_category join self arg =
     self\<lparr>category_attr := category_attr (refine_category join self arg)\<rparr>"
  by (cases arg; cases "category_attr self")
    (simp_all add: refine_category_def init_category_def)

lemma cached_methods_refine_category:
  "cached_methods (refine_category join self arg) = cached_methods self"
  by (subst refine_category_update) simp


lemma getattr_from_category_hit:
  "cached_methods self name = Some v \<Longrightarrow>
   getattr_from_category parent_class builtin_type lookup self name = (Inr v, self)"
  by (simp add: getattr_from_category_def)

lemma example_object_eq:
  "example_object = (cinit True)\<lparr>category_attr := Some {1}, base_attr := Some 5\<rparr>"
  by (simp add: example_object_def init_def init_category_def cinit_def)

lemma example_object_fields [simp]:
  "cached_methods example_object = Map.empty"
  "category_attr example_object = Some {1}"
  "base_attr example_object = Some 5"
  "names_attr example_object = PyNone"
  "hash_value example_object = - 1"
  "dict_attr example_object = Some empty_dict"
  by (simp_all add: example_object_eq cinit_def)

lemma example_lookup_f:
  "getattr_from_category example_parent_class [] example_lookup example_object ''f''
     = (Inr 7, example_object\<lparr>cached_methods := [''f'' \<mapsto> 7]\<rparr>)"
  by (simp add: getattr_from_category_def example_lookup_def getattr_from_other_class_def
      example_parent_class_def)

lemma refine_category_twice:
  assumes "\<forall>x y z. join [join [x, y], z] = join [x, join [y, z]]"
  shows "refine_category join (refine_category join self (Cat A)) (Cat B)
         = refine_category join self (Cat (join [A, B]))"
  using assms by (cases "category_attr self") (simp_all add: refine_category_def init_category_def)

text \<open>
  C9: let the join be associative as a binary operation, \<open>join [join [x, y], z] =
  join [x, join [y, z]]\<close>. Then refining with \<open>A\<close> and then with \<open>B\<close> leaves the
  same object, and so the same category, as refining once with \<open>join [A, B]\<close>. For an
  object whose category is \<open>c\<close> both ways end in \<open>join [c, join [A, B]]\<close>; for an
  object without a category both end in \<open>join [A, B]\<close>. The method \<open>category()\<close>
  returns the same on both.
\<close>

theorem refine_category_twice_join:
  assumes "\<forall>x y z. join [join [x, y], z] = join [x, join [y, z]]"
  shows "refine_category join (refine_category join self (Cat A)) (Cat B)
           = refine_category join self (Cat (join [A, B]))
         \<and> (category_attr self = Some c \<longrightarrow>
              category_attr (refine_category join (refine_category join self (Cat A)) (Cat B))
                = Some (join [c, join [A, B]])
              \<and> category_attr (refine_category join self (Cat (join [A, B])))
                = Some (join [c, join [A, B]]))
         \<and> fst (category objects (refine_category join (refine_category join self (Cat A)) (Cat B)))
             = fst (category objects (refine_category join self (Cat (join [A, B]))))"
proof -
  have eq: "refine_category join (refine_category join self (Cat A)) (Cat B)
           = refine_category join self (Cat (join [A, B]))"
    using assms by (rule refine_category_twice)
  have "category_attr self = Some c \<longrightarrow>
          category_attr (refine_category join self (Cat (join [A, B])))
            = Some (join [c, join [A, B]])"
    by (simp add: refine_category_def)
  with eq show ?thesis by simp
qed

theorem refine_category_twice_join_witness:
  "refine_category example_join (refine_category example_join example_object (Cat {2})) (Cat {3})
     = refine_category example_join example_object (Cat (example_join [{2}, {3}]))
   \<and> category_attr
        (refine_category example_join (refine_category example_join example_object (Cat {2})) (Cat {3}))
     = Some {1, 2, 3}"
proof -
  have assoc: "\<forall>x y z. example_join [example_join [x, y], z] = example_join [x, example_join [y, z]]"
    by (auto simp: example_join_def)
  have c: "category_attr example_object = Some {1}" by simp
  have j: "example_join [{1}, example_join [{2}, {3}]] = {1, 2, 3}"
    by (auto simp: example_join_def)
  from refine_category_twice_join [OF assoc, where self = example_object and A = "{2}"
      and B = "{3}" and c = "{1}" and objects = "{}"] c j
  show ?thesis by simp
qed




section \<open>Lookup of attributes in the category\<close>

lemma getattr_from_category_miss:
  "cached_methods self name = None \<Longrightarrow>
   getattr_from_category parent_class builtin_type lookup self name =
     (case lookup self (case category_attr self of None \<Rightarrow> builtin_type | Some c \<Rightarrow> parent_class c) name of
        Inl e \<Rightarrow> (Inl e, self)
      | Inr attr \<Rightarrow> (Inr attr, self\<lparr>cached_methods := (cached_methods self)(name \<mapsto> attr)\<rparr>))"
  by (simp add: getattr_from_category_def)

lemma getattr_from_category_error:
  assumes "getattr_from_category parent_class builtin_type lookup self name = (Inl e, self')"
  shows "self' = self" and "cached_methods self name = None"
    and "lookup self (case category_attr self of None \<Rightarrow> builtin_type | Some c \<Rightarrow> parent_class c) name = Inl e"
  using assms
  by (auto simp: getattr_from_category_def Let_def split: option.splits sum.splits)

lemma getattr_from_category_value:
  assumes "getattr_from_category parent_class builtin_type lookup self name = (Inr v, self')"
  shows "self' = self\<lparr>cached_methods := (cached_methods self)(name \<mapsto> v)\<rparr>"
proof (cases "cached_methods self name")
  case None
  with assms show ?thesis
    by (auto simp: getattr_from_category_miss split: sum.splits)
next
  case (Some w)
  with assms have "v = w" and "self' = self"
    by (simp_all add: getattr_from_category_hit)
  moreover from Some have "(cached_methods self)(name \<mapsto> w) = cached_methods self"
    by (simp add: map_upd_triv)
  ultimately show ?thesis by simp
qed

text \<open>
  C1: let the cache of an object have no entry for \<open>name\<close>, and let the parent class of
  its category define \<open>name\<close> as \<open>a\<close>. Then the lookup returns \<open>a\<close> bound to the
  object and leaves the object with that value stored in the cache under \<open>name\<close>. A
  further lookup of \<open>name\<close> returns the stored value and leaves the object as it is,
  whatever the parent class, the builtin type and the imported lookup are by then: the
  cache alone answers it. In general a name that is in the cache is answered from the
  cache. If the cache has no entry and the class that is searched (the parent class of
  the category, or the builtin \<open>type\<close> when no category is set) does not define
  \<open>name\<close>, the lookup raises the attribute error for \<open>name\<close>.
\<close>

theorem getattr_from_category_caches:
  "(cached_methods self name = None \<longrightarrow> category_attr self = Some c \<longrightarrow>
      class_lookup (parent_class c) name = Some a \<longrightarrow>
      getattr_from_category parent_class builtin_type (getattr_from_other_class bind) self name
        = (Inr (bind a self), self\<lparr>cached_methods := (cached_methods self)(name \<mapsto> bind a self)\<rparr>)
      \<and> getattr_from_category parent_class' builtin_type' lookup'
            (self\<lparr>cached_methods := (cached_methods self)(name \<mapsto> bind a self)\<rparr>) name
        = (Inr (bind a self), self\<lparr>cached_methods := (cached_methods self)(name \<mapsto> bind a self)\<rparr>))
   \<and> (cached_methods self name = Some v \<longrightarrow>
        getattr_from_category parent_class' builtin_type' lookup' self name = (Inr v, self))
   \<and> (cached_methods self name = None \<longrightarrow>
        class_lookup (case category_attr self of None \<Rightarrow> builtin_type | Some c \<Rightarrow> parent_class c) name
          = None \<longrightarrow>
        getattr_from_category parent_class builtin_type (getattr_from_other_class bind) self name
          = (Inl (AttributeError (NoAttribute name)), self))"
proof -
  have first: "cached_methods self name = None \<longrightarrow> category_attr self = Some c \<longrightarrow>
      class_lookup (parent_class c) name = Some a \<longrightarrow>
      getattr_from_category parent_class builtin_type (getattr_from_other_class bind) self name
        = (Inr (bind a self), self\<lparr>cached_methods := (cached_methods self)(name \<mapsto> bind a self)\<rparr>)"
    by (simp add: getattr_from_category_miss getattr_from_other_class_def)
  have again: "getattr_from_category parent_class' builtin_type' lookup'
            (self\<lparr>cached_methods := (cached_methods self)(name \<mapsto> bind a self)\<rparr>) name
        = (Inr (bind a self), self\<lparr>cached_methods := (cached_methods self)(name \<mapsto> bind a self)\<rparr>)"
    by (rule getattr_from_category_hit) simp
  have hit: "cached_methods self name = Some v \<longrightarrow>
        getattr_from_category parent_class' builtin_type' lookup' self name = (Inr v, self)"
    by (simp add: getattr_from_category_hit)
  have absent: "cached_methods self name = None \<longrightarrow>
        class_lookup (case category_attr self of None \<Rightarrow> builtin_type | Some c \<Rightarrow> parent_class c) name
          = None \<longrightarrow>
        getattr_from_category parent_class builtin_type (getattr_from_other_class bind) self name
          = (Inl (AttributeError (NoAttribute name)), self)"
    by (simp add: getattr_from_category_miss getattr_from_other_class_def)
  show ?thesis using first again hit absent by blast
qed

theorem getattr_from_category_caches_witness:
  "getattr_from_category example_parent_class [] (getattr_from_other_class (\<lambda>a self. a))
      example_object ''f''
     = (Inr 7, example_object\<lparr>cached_methods := [''f'' \<mapsto> 7]\<rparr>)
   \<and> getattr_from_category (\<lambda>c. []) ([] :: nat pyclass) (\<lambda>self cls name. Inr 0)
      (example_object\<lparr>cached_methods := [''f'' \<mapsto> 7]\<rparr>) ''f''
     = (Inr 7, example_object\<lparr>cached_methods := [''f'' \<mapsto> 7]\<rparr>)
   \<and> getattr_from_category example_parent_class [] (getattr_from_other_class (\<lambda>a self. a))
      example_object ''g''
     = (Inl (AttributeError (NoAttribute ''g'')), example_object)"
proof -
  let ?P' = "\<lambda>c :: nat set. [] :: nat pyclass"
  let ?L' = "\<lambda>(self :: (nat set, nat, nat, nat) CategoryObject) (cls :: nat pyclass) (name :: string).
      Inr 0 :: nat error + nat"
  let ?B = "\<lambda>(a :: nat) (self :: (nat set, nat, nat, nat) CategoryObject). a"
  note T = getattr_from_category_caches [where self = example_object and c = "{1}"
      and parent_class = example_parent_class and builtin_type = "[]" and bind = ?B
      and parent_class' = ?P' and builtin_type' = "[]" and lookup' = ?L' and v = 0]
  have miss: "\<And>n. cached_methods example_object n = None" by simp
  have cat: "category_attr example_object = Some {1}" by simp
  have f: "class_lookup (example_parent_class {1}) ''f'' = Some 7"
    by (simp add: example_parent_class_def)
  have g: "class_lookup (case category_attr example_object of None \<Rightarrow> []
        | Some c \<Rightarrow> example_parent_class c) ''g'' = None"
    by (simp add: example_parent_class_def)
  have 1: "getattr_from_category example_parent_class [] (getattr_from_other_class ?B)
      example_object ''f''
     = (Inr 7, example_object\<lparr>cached_methods := [''f'' \<mapsto> 7]\<rparr>)
   \<and> getattr_from_category ?P' [] ?L'
      (example_object\<lparr>cached_methods := [''f'' \<mapsto> 7]\<rparr>) ''f''
     = (Inr 7, example_object\<lparr>cached_methods := [''f'' \<mapsto> 7]\<rparr>)"
    using T [where name = "''f''" and a = 7] miss cat f by simp
  have 2: "getattr_from_category example_parent_class [] (getattr_from_other_class ?B)
      example_object ''g''
     = (Inl (AttributeError (NoAttribute ''g'')), example_object)"
    using T [where name = "''g''" and a = 7] miss g by simp
  show ?thesis using 1 2 by blast
qed

lemma example_lookup_g_fails:
  "getattr_from_category example_parent_class [] example_lookup example_object ''g''
     = (Inl (AttributeError (NoAttribute ''g'')), example_object)"
  by (simp add: getattr_from_category_def example_lookup_def getattr_from_other_class_def
      example_parent_class_def)

lemma example_refined:
  "refine_category example_join example_object (Cat {2})
     = example_object\<lparr>category_attr := Some {1, 2}\<rparr>"
  by (simp add: refine_category_def example_join_def insert_commute)

text \<open>
  C10: a lookup that raises leaves the object, and with it the cache, as it was, and the
  name it asked for was not in the cache. A lookup that returns a value leaves the cache
  with that value under the name and nothing else changed. So after a failed lookup and
  a refinement of the category, a lookup of the same name that the imported lookup now
  resolves succeeds and stores the value. The imported lookup is arbitrary here.
\<close>

theorem getattr_from_category_failure_keeps_cache:
  "(getattr_from_category parent_class builtin_type lookup self name = (Inl e, self') \<longrightarrow>
      self' = self \<and> cached_methods self' = cached_methods self \<and> cached_methods self name = None)
   \<and> (getattr_from_category parent_class builtin_type lookup self name = (Inr v, self') \<longrightarrow>
      self' = self\<lparr>cached_methods := (cached_methods self)(name \<mapsto> v)\<rparr>)
   \<and> (getattr_from_category parent_class builtin_type lookup self name = (Inl e, self') \<longrightarrow>
      lookup (refine_category join self' arg)
        (case category_attr (refine_category join self' arg) of
           None \<Rightarrow> builtin_type | Some c \<Rightarrow> parent_class c) name = Inr v \<longrightarrow>
      getattr_from_category parent_class builtin_type lookup (refine_category join self' arg) name
        = (Inr v, (refine_category join self' arg)\<lparr>cached_methods := (cached_methods self)(name \<mapsto> v)\<rparr>))"
proof -
  have fail: "getattr_from_category parent_class builtin_type lookup self name = (Inl e, self') \<longrightarrow>
      self' = self \<and> cached_methods self' = cached_methods self \<and> cached_methods self name = None"
    using getattr_from_category_error(1,2) [of parent_class builtin_type lookup self name e self']
    by blast
  have stored: "getattr_from_category parent_class builtin_type lookup self name = (Inr v, self') \<longrightarrow>
      self' = self\<lparr>cached_methods := (cached_methods self)(name \<mapsto> v)\<rparr>"
    using getattr_from_category_value [of parent_class builtin_type lookup self name v self']
    by blast
  have later: "getattr_from_category parent_class builtin_type lookup self name = (Inl e, self') \<longrightarrow>
      lookup (refine_category join self' arg)
        (case category_attr (refine_category join self' arg) of
           None \<Rightarrow> builtin_type | Some c \<Rightarrow> parent_class c) name = Inr v \<longrightarrow>
      getattr_from_category parent_class builtin_type lookup (refine_category join self' arg) name
        = (Inr v, (refine_category join self' arg)\<lparr>cached_methods := (cached_methods self)(name \<mapsto> v)\<rparr>)"
  proof (intro impI)
    assume f: "getattr_from_category parent_class builtin_type lookup self name = (Inl e, self')"
      and l: "lookup (refine_category join self' arg)
        (case category_attr (refine_category join self' arg) of
           None \<Rightarrow> builtin_type | Some c \<Rightarrow> parent_class c) name = Inr v"
    from f have same: "self' = self" and none: "cached_methods self name = None"
      by (rule getattr_from_category_error)+
    let ?r = "refine_category join self' arg"
    have c: "cached_methods ?r = cached_methods self"
      using same by (simp add: cached_methods_refine_category)
    with none have "cached_methods ?r name = None" by simp
    then have "getattr_from_category parent_class builtin_type lookup ?r name
        = (Inr v, ?r\<lparr>cached_methods := (cached_methods ?r)(name \<mapsto> v)\<rparr>)"
      using l by (simp add: getattr_from_category_miss)
    with c show "getattr_from_category parent_class builtin_type lookup ?r name
        = (Inr v, ?r\<lparr>cached_methods := (cached_methods self)(name \<mapsto> v)\<rparr>)"
      by simp
  qed
  show ?thesis using fail stored later by blast
qed

theorem getattr_from_category_failure_keeps_cache_witness:
  "getattr_from_category example_parent_class [] example_lookup example_object ''g''
     = (Inl (AttributeError (NoAttribute ''g'')), example_object)
   \<and> getattr_from_category example_parent_class [] example_lookup
       (refine_category example_join example_object (Cat {2})) ''g''
     = (Inr 8, (refine_category example_join example_object (Cat {2}))\<lparr>cached_methods := [''g'' \<mapsto> 8]\<rparr>)"
proof -
  let ?r = "refine_category example_join example_object (Cat {2})"
  note T = getattr_from_category_failure_keeps_cache [where parent_class = example_parent_class
      and builtin_type = "[]" and lookup = example_lookup and self = example_object
      and self' = example_object and name = "''g''" and e = "AttributeError (NoAttribute ''g'')"
      and v = 8 and join = example_join and arg = "Cat {2}"]
  have found: "example_lookup ?r
        (case category_attr ?r of None \<Rightarrow> [] | Some c \<Rightarrow> example_parent_class c) ''g'' = Inr 8"
    by (simp add: example_refined example_lookup_def getattr_from_other_class_def
        example_parent_class_def)
  have "getattr_from_category example_parent_class [] example_lookup ?r ''g''
     = (Inr 8, ?r\<lparr>cached_methods := (cached_methods example_object)(''g'' \<mapsto> 8)\<rparr>)"
    using T example_lookup_g_fails found by blast
  then show ?thesis using example_lookup_g_fails by simp
qed

section \<open>Capture and restore of the state\<close>

lemma set_dict_fields [simp]:
  "cached_methods (set_dict self d) = cached_methods self"
  "category_attr (set_dict self d) = category_attr self"
  "base_attr (set_dict self d) = base_attr self"
  "names_attr (set_dict self d) = names_attr self"
  "hash_value (set_dict self d) = hash_value self"
  by (simp_all add: set_dict_def split: option.splits)

lemma getstate_fields [simp]:
  "d_category (getstate self) = Some (category_attr self)"
  "d_base (getstate self) = Some (base_attr self)"
  "d_names (getstate self) = Some (names_attr self)"
  "d_pickle_version (getstate self) = Some 1"
  by (simp_all add: getstate_def Let_def)

lemma setstate_version_1:
  assumes "d_pickle_version d = Some 1" and "d_category d = Some dc" and "d_base d = Some b"
    and "d_names d = Some n"
  shows "fst (setstate join self d) = Inr ()"
    and "category_attr (snd (setstate join self d)) =
           (case dc of None \<Rightarrow> category_attr self
            | Some c \<Rightarrow>
                (case category_attr self of None \<Rightarrow> Some c
                 | Some current \<Rightarrow> Some (join [current, c])))"
    and "base_attr (snd (setstate join self d)) = b"
    and "names_attr (snd (setstate join self d)) = n"
  using assms by (cases dc; cases "category_attr self"; simp add: setstate_def)+


lemma setstate_keeps_caches:
  "cached_methods (snd (setstate join self d)) = cached_methods self"
  "hash_value (snd (setstate join self d)) = hash_value self"
  by (simp_all add: setstate_def Let_def split: option.splits)

lemma cinit_fields [simp]:
  "cached_methods (cinit has_dict) = Map.empty"
  "category_attr (cinit has_dict) = None"
  "base_attr (cinit has_dict) = None"
  "hash_value (cinit has_dict) = - 1"
  by (simp_all add: cinit_def)

lemma setstate_getstate_fresh:
  "fst (setstate join (cinit has_dict) (getstate self)) = Inr ()"
  "category_attr (snd (setstate join (cinit has_dict) (getstate self))) = category_attr self"
  "base_attr (snd (setstate join (cinit has_dict) (getstate self))) = base_attr self"
  "names_attr (snd (setstate join (cinit has_dict) (getstate self))) = names_attr self"
  using setstate_version_1 [of "getstate self" "category_attr self" "base_attr self"
      "names_attr self" join "cinit has_dict"]
  by (simp_all split: option.splits)

lemma setstate_getstate_same:
  "fst (setstate join self (getstate self)) = Inr ()"
  "category_attr (snd (setstate join self (getstate self))) =
     (case category_attr self of None \<Rightarrow> None | Some c \<Rightarrow> Some (join [c, c]))"
  "base_attr (snd (setstate join self (getstate self))) = base_attr self"
  "names_attr (snd (setstate join self (getstate self))) = names_attr self"
  using setstate_version_1 [of "getstate self" "category_attr self" "base_attr self"
      "names_attr self" join self]
  by (simp_all split: option.splits)


lemma category_of_attr:
  "fst (category objects self) = (case category_attr self of None \<Rightarrow> objects | Some c \<Rightarrow> c)"
  by (simp add: category_def split: option.splits)

lemma example_used_fields:
  "cached_methods example_used ''f'' = Some 7" "hash_value example_used = 42"
  by (simp_all add: example_used_def example_lookup_f hash_method_def example_hash_repr_def)

lemma example_used_attrs:
  "category_attr example_used = Some {1}" "base_attr example_used = Some 5"
  "names_attr example_used = PyNone"
  by (simp_all add: example_used_def example_lookup_f hash_method_def example_hash_repr_def)

text \<open>
  C3, as the code has it: the record that \<open>__getstate__\<close> captures from an object,
  restored by \<open>__setstate__\<close> into a freshly created object, is accepted and gives that
  object the category, the base and the names of the original, so \<open>category()\<close>,
  \<open>base()\<close> and \<open>variable_names()\<close> answer as on the original. The attribute cache
  of that object is empty and its hash is not yet computed, because \<open>__cinit__\<close> made
  them so: \<open>__setstate__\<close> itself, for any record and any object, leaves the attribute
  cache and the hash as they were. Restored into the object it was captured from, the
  record leaves base and names as they were and turns a category \<open>c\<close> into
  \<open>join [c, c]\<close>.
\<close>

theorem setstate_getstate_roundtrip:
  "fst (setstate join (cinit has_dict) (getstate self)) = Inr ()
   \<and> category_attr (snd (setstate join (cinit has_dict) (getstate self))) = category_attr self
   \<and> base_attr (snd (setstate join (cinit has_dict) (getstate self))) = base_attr self
   \<and> names_attr (snd (setstate join (cinit has_dict) (getstate self))) = names_attr self
   \<and> fst (category objects (snd (setstate join (cinit has_dict) (getstate self))))
       = fst (category objects self)
   \<and> base (snd (setstate join (cinit has_dict) (getstate self))) = base self
   \<and> variable_names (snd (setstate join (cinit has_dict) (getstate self))) = variable_names self
   \<and> cached_methods (snd (setstate join (cinit has_dict) (getstate self))) = Map.empty
   \<and> hash_value (snd (setstate join (cinit has_dict) (getstate self))) = - 1
   \<and> cached_methods (snd (setstate join target d)) = cached_methods target
   \<and> hash_value (snd (setstate join target d)) = hash_value target
   \<and> fst (setstate join self (getstate self)) = Inr ()
   \<and> base_attr (snd (setstate join self (getstate self))) = base_attr self
   \<and> names_attr (snd (setstate join self (getstate self))) = names_attr self
   \<and> category_attr (snd (setstate join self (getstate self)))
       = (case category_attr self of None \<Rightarrow> None | Some c \<Rightarrow> Some (join [c, c]))"
proof -
  let ?fresh = "snd (setstate join (cinit has_dict) (getstate self))"
  have c: "category_attr ?fresh = category_attr self"
    and b: "base_attr ?fresh = base_attr self"
    and n: "names_attr ?fresh = names_attr self"
    and ok: "fst (setstate join (cinit has_dict) (getstate self)) = Inr ()"
    by (rule setstate_getstate_fresh)+
  have methods: "fst (category objects ?fresh) = fst (category objects self)"
    "base ?fresh = base self" "variable_names ?fresh = variable_names self"
    using c b n by (simp_all add: category_of_attr base_def variable_names_def)
  have caches: "cached_methods ?fresh = Map.empty" "hash_value ?fresh = - 1"
    by (simp_all add: setstate_keeps_caches)
  show ?thesis
    using ok c b n methods caches setstate_keeps_caches [of join target d]
      setstate_getstate_same [of join self]
    by simp
qed

theorem setstate_getstate_roundtrip_witness:
  "fst (setstate example_join (cinit True) (getstate example_used)) = Inr ()
   \<and> category_attr (snd (setstate example_join (cinit True) (getstate example_used))) = Some {1}
   \<and> base_attr (snd (setstate example_join (cinit True) (getstate example_used))) = Some 5
   \<and> names_attr (snd (setstate example_join (cinit True) (getstate example_used))) = PyNone
   \<and> cached_methods (snd (setstate example_join (cinit True) (getstate example_used))) ''f'' = None
   \<and> hash_value (snd (setstate example_join (cinit True) (getstate example_used))) = - 1
   \<and> category_attr (snd (setstate example_join example_used (getstate example_used))) = Some {1}"
proof -
  note T = setstate_getstate_roundtrip [where join = example_join and has_dict = True
      and self = example_used and target = example_used and d = "getstate example_used"
      and objects = "{}"]
  from T show ?thesis by (simp add: example_used_attrs example_join_def)
qed

text \<open>
  The example object after a lookup and a hash, restored from its own captured state:
  the restore succeeds, the cache still answers \<open>f\<close> and the hash is still 42.
\<close>

theorem setstate_resets_caches_counterexample:
  "fst (setstate example_join example_used (getstate example_used)) = Inr ()
   \<and> cached_methods (snd (setstate example_join example_used (getstate example_used))) ''f'' = Some 7
   \<and> hash_value (snd (setstate example_join example_used (getstate example_used))) = 42"
  by (simp add: setstate_keeps_caches setstate_getstate_same example_used_fields)




end
